theory Spec2Isabelle
  imports Complex_Main
begin

section \<open>The grading endpoint: POST .../assignments/[id]/submissions/[submissionId]/grade\<close>

text \<open>
  A shallow embedding of the route handler \<^verbatim>\<open>POST\<close> of
  \<^verbatim>\<open>src/app/api/teacher/assignments/[id]/submissions/[submissionId]/grade/route.ts\<close>.
  The handler is one \<^verbatim>\<open>try { ... } catch\<close> block. Its collaborators (the cookie
  jar, \<^verbatim>\<open>jsonwebtoken.verify\<close>, \<^verbatim>\<open>request.json()\<close>, the Mongoose models) are
  outside the file; they enter the model as data of the request, of the environment and of
  the document store, and every call that can throw has a branch for the exception.
\<close>

subsection \<open>JavaScript values of the parsed request body\<close>

text \<open>
  What \<^verbatim>\<open>request.json()\<close> can resolve to, plus \<^verbatim>\<open>undefined\<close> for a property
  that is not there. Numbers are only stored and tested for being zero, so they are kept as
  rationals. An object is the list of its own properties, each name once (a parsed object
  has no duplicate keys).
\<close>

datatype jsval =
    JUndefined
  | JNull
  | JBool bool
  | JNum rat
  | JStr string
  | JArr "jsval list"
  | JObj "(string \<times> jsval) list"

text \<open>JavaScript truthiness: \<^verbatim>\<open>!v\<close> is \<open>\<not> truthy v\<close>.\<close>

fun truthy :: "jsval \<Rightarrow> bool" where
  "truthy JUndefined = False"
| "truthy JNull = False"
| "truthy (JBool b) = b"
| "truthy (JNum n) = (n \<noteq> 0)"
| "truthy (JStr s) = (s \<noteq> [])"
| "truthy (JArr xs) = True"
| "truthy (JObj kvs) = True"

text \<open>An exception, with the message it carries.\<close>

datatype error = Error string

text \<open>
  \<^verbatim>\<open>const { grade, feedback } = body\<close>: reading the two properties throws a TypeError
  on \<^verbatim>\<open>null\<close> and \<^verbatim>\<open>undefined\<close>; an object gives its own properties or
  \<^verbatim>\<open>undefined\<close>; a boolean, number, string or array has neither property.
\<close>

definition property :: "(string \<times> jsval) list \<Rightarrow> string \<Rightarrow> jsval" where
  "property kvs k = (case map_of kvs k of None \<Rightarrow> JUndefined | Some v \<Rightarrow> v)"

fun destructure :: "jsval \<Rightarrow> error + (jsval \<times> jsval)" where
  "destructure JUndefined = Inl (Error ''TypeError: Cannot destructure property of undefined'')"
| "destructure JNull = Inl (Error ''TypeError: Cannot destructure property of null'')"
| "destructure (JObj kvs) = Inr (property kvs ''grade'', property kvs ''feedback'')"
| "destructure (JBool b) = Inr (JUndefined, JUndefined)"
| "destructure (JNum n) = Inr (JUndefined, JUndefined)"
| "destructure (JStr s) = Inr (JUndefined, JUndefined)"
| "destructure (JArr xs) = Inr (JUndefined, JUndefined)"

subsection \<open>Documents\<close>

text \<open>
  The fields the handler reads or writes. \<open>submission_id\<close>, \<open>assignment_id\<close> and
  \<open>teacher_id\<close> are the documents' \<^verbatim>\<open>_id\<close>, as strings. \<open>gradedAt\<close> is a
  time in milliseconds, \<open>None\<close> while unset.
\<close>

record JwtPayload =
  userId :: string
  role :: string

record Submission =
  submission_id :: string
  studentId :: string
  grade :: jsval
  feedback :: jsval
  status :: string
  gradedAt :: "int option"

record Assignment =
  assignment_id :: string
  teacherId :: string
  title :: string
  submissions :: "Submission list"

record Teacher =
  teacher_id :: string
  firstName :: string
  lastName :: string

record Notification =
  recipientId :: string
  recipientModel :: string
  senderId :: string
  senderModel :: string
  kind :: string
  message :: string
  relatedDocId :: string
  read :: bool

text \<open>The document store: the three collections the handler touches.\<close>

record store =
  assignments :: "Assignment list"
  teachers :: "Teacher list"
  notifications :: "Notification list"

subsection \<open>Request, environment, response\<close>

text \<open>
  \<open>json\<close> is the outcome of \<^verbatim>\<open>await request.json()\<close>: the parsed body, or the
  exception of a body that is not JSON. \<open>param_id\<close> and \<open>param_submissionId\<close> are
  \<^verbatim>\<open>params.id\<close> and \<^verbatim>\<open>params.submissionId\<close>.
\<close>

record request =
  cookies :: "(string \<times> string) list"
  param_id :: string
  param_submissionId :: string
  json :: "error + jsval"

text \<open>The calls on the database that can reject, in the order the handler makes them.\<close>

datatype db_call =
    ConnectToDatabase
  | AssignmentFindById
  | AssignmentSave
  | TeacherFindById
  | NotificationCreate

text \<open>
  What the handler takes from outside the request: the secret
  \<^verbatim>\<open>process.env.JWT_SECRET\<close>, the function \<^verbatim>\<open>verify\<close> of jsonwebtoken (it
  returns the payload or throws), the clock read by \<^verbatim>\<open>new Date()\<close>, and for each
  database call the exception it raises in this run, if any.
\<close>

record env =
  JWT_SECRET :: "string option"
  verify :: "string \<Rightarrow> string option \<Rightarrow> error + JwtPayload"
  current_date :: int
  db_failure :: "db_call \<Rightarrow> error option"

text \<open>
  The JSON bodies the handler sends: \<^verbatim>\<open>{ success: false, error }\<close> and
  \<^verbatim>\<open>{ success: true, message, submission }\<close>.
\<close>

datatype json_body =
    Failure string
  | Success string Submission

record response =
  status_code :: nat
  body :: json_body

text \<open>\<^verbatim>\<open>NextResponse.json(body, { status })\<close>; the status defaults to 200.\<close>

definition NextResponse_json :: "json_body \<Rightarrow> nat \<Rightarrow> response" where
  "NextResponse_json b s = \<lparr>status_code = s, body = b\<rparr>"

subsection \<open>The Mongoose operations\<close>

text \<open>\<^verbatim>\<open>Assignment.findById\<close> and \<^verbatim>\<open>Teacher.findById\<close>: the document or null.\<close>

definition Assignment_findById :: "Assignment list \<Rightarrow> string \<Rightarrow> Assignment option" where
  "Assignment_findById docs i = find (\<lambda>d. assignment_id d = i) docs"

definition Teacher_findById :: "Teacher list \<Rightarrow> string \<Rightarrow> Teacher option" where
  "Teacher_findById docs i = find (\<lambda>d. teacher_id d = i) docs"

text \<open>\<^verbatim>\<open>assignment.submissions.id(submissionId)\<close>: the first subdocument with that id, or null.\<close>

definition submissions_id :: "Submission list \<Rightarrow> string \<Rightarrow> Submission option" where
  "submissions_id subs i = find (\<lambda>s. submission_id s = i) subs"

text \<open>
  The four assignments to \<^verbatim>\<open>submission\<close> write into the subdocument held by
  \<^verbatim>\<open>assignment\<close>: in the aggregate, the first subdocument with the id is the one
  that changes.
\<close>

fun put_submission :: "Submission \<Rightarrow> Submission list \<Rightarrow> Submission list" where
  "put_submission s [] = []"
| "put_submission s (x # xs) =
     (if submission_id x = submission_id s then s # xs else x # put_submission s xs)"

text \<open>\<^verbatim>\<open>assignment.save()\<close>: the stored document with this id is replaced by the aggregate.\<close>

fun save :: "Assignment \<Rightarrow> Assignment list \<Rightarrow> Assignment list" where
  "save a [] = []"
| "save a (d # ds) =
     (if assignment_id d = assignment_id a then a # ds else d # save a ds)"

subsection \<open>The handler\<close>

definition json_error :: "string \<Rightarrow> nat \<Rightarrow> response" where
  "json_error msg s = NextResponse_json (Failure msg) s"

text \<open>The notification of lines 128 to 137.\<close>

definition graded_notification :: "Teacher \<Rightarrow> Assignment \<Rightarrow> Submission \<Rightarrow> string \<Rightarrow> Notification" where
  "graded_notification teacher assignment submission teacherId' =
     \<lparr>recipientId = studentId submission,
      recipientModel = ''Student'',
      senderId = teacherId',
      senderModel = ''Teacher'',
      kind = ''assignment_graded'',
      message = (firstName teacher @ '' '' @ lastName teacher)
                  @ '' has graded your assignment '' @ [CHR 0x22] @ title assignment @ [CHR 0x22],
      relatedDocId = assignment_id assignment,
      read = False\<rparr>"

text \<open>
  Lines 109 to 146, reached with the decoded token, the two body values, the assignment and
  the submission found in it. \<open>Inl\<close> is an exception on its way to the \<^verbatim>\<open>catch\<close>;
  the store returned with it holds what was written before the exception.
\<close>

definition grade_and_notify ::
  "env \<Rightarrow> JwtPayload \<Rightarrow> jsval \<Rightarrow> jsval \<Rightarrow> Assignment \<Rightarrow> Submission \<Rightarrow> store
     \<Rightarrow> (error + response) \<times> store" where
  "grade_and_notify e decoded grade' feedback' assignment submission db =
     (let submission' = submission\<lparr>grade := grade', feedback := feedback',
            status := ''graded'', gradedAt := Some (current_date e)\<rparr>;
          assignment' = assignment\<lparr>submissions :=
            put_submission submission' (submissions assignment)\<rparr>
      in case db_failure e AssignmentSave of
           Some x \<Rightarrow> (Inl x, db)
         | None \<Rightarrow>
             (let db' = db\<lparr>assignments := save assignment' (assignments db)\<rparr>;
                  ok = NextResponse_json
                         (Success ''Submission graded successfully'' submission') 200
              in case db_failure e TeacherFindById of
                   Some x \<Rightarrow> (Inl x, db')
                 | None \<Rightarrow>
                     (case Teacher_findById (teachers db') (userId decoded) of
                        None \<Rightarrow> (Inr ok, db')
                      | Some teacher \<Rightarrow>
                          (case db_failure e NotificationCreate of
                             Some x \<Rightarrow> (Inl x, db')
                           | None \<Rightarrow>
                               (Inr ok,
                                db'\<lparr>notifications := notifications db' @
                                  [graded_notification teacher assignment' submission'
                                     (userId decoded)]\<rparr>)))))"

text \<open>Lines 76 to 107, after the connection: the lookups and the ownership check.\<close>

definition find_and_grade ::
  "env \<Rightarrow> JwtPayload \<Rightarrow> jsval \<Rightarrow> jsval \<Rightarrow> request \<Rightarrow> store \<Rightarrow> (error + response) \<times> store" where
  "find_and_grade e decoded grade' feedback' req db =
     (case db_failure e AssignmentFindById of
        Some x \<Rightarrow> (Inl x, db)
      | None \<Rightarrow>
          (case Assignment_findById (assignments db) (param_id req) of
             None \<Rightarrow> (Inr (json_error ''Assignment not found'' 404), db)
           | Some assignment \<Rightarrow>
               if teacherId assignment \<noteq> userId decoded
               then (Inr (json_error ''Not authorized to grade this assignment'' 403), db)
               else
                 (case submissions_id (submissions assignment) (param_submissionId req) of
                    None \<Rightarrow> (Inr (json_error ''Submission not found'' 404), db)
                  | Some submission \<Rightarrow>
                      grade_and_notify e decoded grade' feedback' assignment submission db)))"

text \<open>Lines 59 to 73: the body is parsed and validated, then the database is connected.\<close>

definition read_body_and_grade ::
  "env \<Rightarrow> JwtPayload \<Rightarrow> request \<Rightarrow> store \<Rightarrow> (error + response) \<times> store" where
  "read_body_and_grade e decoded req db =
     (case json req of
        Inl x \<Rightarrow> (Inl x, db)
      | Inr b \<Rightarrow>
          (case destructure b of
             Inl x \<Rightarrow> (Inl x, db)
           | Inr (grade', feedback') \<Rightarrow>
               if grade' = JUndefined \<or> \<not> truthy feedback'
               then (Inr (json_error ''Grade and feedback are required'' 400), db)
               else
                 (case db_failure e ConnectToDatabase of
                    Some x \<Rightarrow> (Inl x, db)
                  | None \<Rightarrow> find_and_grade e decoded grade' feedback' req db)))"

text \<open>\<^verbatim>\<open>cookieStore.get("auth-token")?.value\<close>\<close>

definition auth_token :: "request \<Rightarrow> string option" where
  "auth_token req = map_of (cookies req) ''auth-token''"

text \<open>
  The body of the \<^verbatim>\<open>try\<close>, lines 19 to 146. \<^verbatim>\<open>!token\<close> holds for a cookie
  that is absent and for one whose value is the empty string. An exception of
  \<^verbatim>\<open>verify\<close> is caught by the inner \<^verbatim>\<open>try\<close>.
\<close>

definition try_block :: "env \<Rightarrow> request \<Rightarrow> store \<Rightarrow> (error + response) \<times> store" where
  "try_block e req db =
     (case auth_token req of
        None \<Rightarrow> (Inr (json_error ''Unauthorized'' 401), db)
      | Some token \<Rightarrow>
          if token = [] then (Inr (json_error ''Unauthorized'' 401), db)
          else
            (case verify e token (JWT_SECRET e) of
               Inl x \<Rightarrow> (Inr (json_error ''Invalid token'' 401), db)
             | Inr decoded \<Rightarrow>
                 if role decoded \<noteq> ''teacher''
                 then (Inr (json_error
                         ''Access denied - only teachers can grade assignments'' 403), db)
                 else read_body_and_grade e decoded req db))"

text \<open>The handler: the \<^verbatim>\<open>try\<close> with its \<^verbatim>\<open>catch\<close>, lines 148 to 154.\<close>

definition POST :: "env \<Rightarrow> request \<Rightarrow> store \<Rightarrow> response \<times> store" where
  "POST e req db =
     (case try_block e req db of
        (Inl x, db') \<Rightarrow> (json_error ''Failed to grade submission'' 500, db')
      | (Inr r, db') \<Rightarrow> (r, db'))"

subsection \<open>The conditions of the seven checks\<close>

text \<open>
  Checks 1 to 3 pass (lines 29, 39 to 48, 51): the cookie holds the non-empty \<open>token\<close>,
  \<^verbatim>\<open>verify\<close> returns \<open>decoded\<close>, and its role is \<^verbatim>\<open>"teacher"\<close>.
\<close>

definition passes_authentication :: "env \<Rightarrow> request \<Rightarrow> string \<Rightarrow> JwtPayload \<Rightarrow> bool" where
  "passes_authentication e req token decoded \<longleftrightarrow>
     auth_token req = Some token \<and> token \<noteq> [] \<and>
     verify e token (JWT_SECRET e) = Inr decoded \<and> role decoded = ''teacher''"

text \<open>
  Check 4 passes (lines 60 to 64): the body parses to \<open>b\<close>, whose properties are \<open>g\<close>
  and \<open>fb\<close>, with \<open>g\<close> defined and \<open>fb\<close> truthy.
\<close>

definition passes_body_validation :: "request \<Rightarrow> jsval \<Rightarrow> jsval \<Rightarrow> jsval \<Rightarrow> bool" where
  "passes_body_validation req b g fb \<longleftrightarrow>
     json req = Inr b \<and> destructure b = Inr (g, fb) \<and> g \<noteq> JUndefined \<and> truthy fb"

text \<open>
  Checks 5 to 7 pass (lines 79, 90, 101): the assignment \<open>a\<close> is found, the caller owns
  it, and the submission \<open>s\<close> is found in it.
\<close>

definition passes_lookup :: "store \<Rightarrow> request \<Rightarrow> JwtPayload \<Rightarrow> Assignment \<Rightarrow> Submission \<Rightarrow> bool" where
  "passes_lookup db req decoded a s \<longleftrightarrow>
     Assignment_findById (assignments db) (param_id req) = Some a \<and>
     teacherId a = userId decoded \<and>
     submissions_id (submissions a) (param_submissionId req) = Some s"

text \<open>What lines 110 to 113 make of the submission, and of the aggregate that holds it.\<close>

definition graded :: "env \<Rightarrow> jsval \<Rightarrow> jsval \<Rightarrow> Submission \<Rightarrow> Submission" where
  "graded e g fb s =
     s\<lparr>grade := g, feedback := fb, status := ''graded'', gradedAt := Some (current_date e)\<rparr>"

definition graded_assignment :: "env \<Rightarrow> jsval \<Rightarrow> jsval \<Rightarrow> Assignment \<Rightarrow> Submission \<Rightarrow> Assignment" where
  "graded_assignment e g fb a s =
     a\<lparr>submissions := put_submission (graded e g fb s) (submissions a)\<rparr>"

text \<open>The store after \<^verbatim>\<open>assignment.save()\<close>.\<close>

definition saved :: "env \<Rightarrow> jsval \<Rightarrow> jsval \<Rightarrow> Assignment \<Rightarrow> Submission \<Rightarrow> store \<Rightarrow> store" where
  "saved e g fb a s db =
     db\<lparr>assignments := save (graded_assignment e g fb a s) (assignments db)\<rparr>"

text \<open>The 200 response of line 142.\<close>

definition success_response :: "env \<Rightarrow> jsval \<Rightarrow> jsval \<Rightarrow> Submission \<Rightarrow> response" where
  "success_response e g fb s =
     NextResponse_json (Success ''Submission graded successfully'' (graded e g fb s)) 200"

subsection \<open>A school with one assignment\<close>

text \<open>Concrete inputs, on which the theorems below are instantiated.\<close>

definition verify0 :: "string \<Rightarrow> string option \<Rightarrow> error + JwtPayload" where
  "verify0 token secret =
     (if secret = Some ''k'' \<and> token = ''T''
      then Inr \<lparr>userId = ''t1'', role = ''teacher''\<rparr>
      else if secret = Some ''k'' \<and> token = ''U''
      then Inr \<lparr>userId = ''t2'', role = ''teacher''\<rparr>
      else if secret = Some ''k'' \<and> token = ''S''
      then Inr \<lparr>userId = ''st1'', role = ''student''\<rparr>
      else Inl (Error ''JsonWebTokenError: jwt malformed''))"

definition env0 :: "int \<Rightarrow> (db_call \<Rightarrow> error option) \<Rightarrow> env" where
  "env0 t f = \<lparr>JWT_SECRET = Some ''k'', verify = verify0, current_date = t, db_failure = f\<rparr>"

definition no_failure :: "db_call \<Rightarrow> error option" where
  "no_failure c = None"

definition failure_at :: "db_call \<Rightarrow> db_call \<Rightarrow> error option" where
  "failure_at c c' = (if c' = c then Some (Error ''MongoNetworkError'') else None)"

definition submission0 :: Submission where
  "submission0 = \<lparr>submission_id = ''s1'', studentId = ''st1'', grade = JUndefined,
     feedback = JUndefined, status = ''submitted'', gradedAt = None\<rparr>"

definition assignment0 :: Assignment where
  "assignment0 = \<lparr>assignment_id = ''a1'', teacherId = ''t1'', title = ''Essay'',
     submissions = [submission0]\<rparr>"

definition teacher0 :: Teacher where
  "teacher0 = \<lparr>teacher_id = ''t1'', firstName = ''Ada'', lastName = ''Lee''\<rparr>"

definition store0 :: store where
  "store0 = \<lparr>assignments = [assignment0], teachers = [teacher0], notifications = []\<rparr>"

definition request0 :: "(string \<times> string) list \<Rightarrow> string \<Rightarrow> string \<Rightarrow> error + jsval \<Rightarrow> request" where
  "request0 cs i si b = \<lparr>cookies = cs, param_id = i, param_submissionId = si, json = b\<rparr>"

definition body0 :: "jsval \<Rightarrow> jsval \<Rightarrow> jsval" where
  "body0 g fb = JObj [(''grade'', g), (''feedback'', fb)]"

definition teacher_cookie :: "(string \<times> string) list" where
  "teacher_cookie = [(''auth-token'', ''T'')]"

definition teacher_payload :: JwtPayload where
  "teacher_payload = \<lparr>userId = ''t1'', role = ''teacher''\<rparr>"

definition good_body :: jsval where
  "good_body = body0 (JNum 85) (JStr ''Good work'')"

definition grade_request :: "error + jsval \<Rightarrow> request" where
  "grade_request b = request0 teacher_cookie ''a1'' ''s1'' b"

definition student_cookie :: "(string \<times> string) list" where
  "student_cookie = [(''auth-token'', ''S'')]"

definition other_teacher_cookie :: "(string \<times> string) list" where
  "other_teacher_cookie = [(''auth-token'', ''U'')]"

definition other_teacher_payload :: JwtPayload where
  "other_teacher_payload = \<lparr>userId = ''t2'', role = ''teacher''\<rparr>"

definition forged_cookie :: "(string \<times> string) list" where
  "forged_cookie = [(''auth-token'', ''X'')]"

definition feedback_only_body :: jsval where
  "feedback_only_body = JObj [(''feedback'', JStr ''Good work'')]"

definition unparsable :: "error + jsval" where
  "unparsable = Inl (Error ''SyntaxError: Unexpected token < in JSON at position 0'')"

definition zero_body :: jsval where
  "zero_body = body0 (JNum 0) (JStr ''Good work'')"

definition empty_feedback_body :: jsval where
  "empty_feedback_body = body0 (JNum 85) (JStr [])"

definition better_body :: jsval where
  "better_body = body0 (JNum 90) (JStr ''Better'')"

section \<open>Properties\<close>

subsection \<open>The stages of the handler\<close>

lemma find_Some_holds: "find P xs = Some x \<Longrightarrow> P x"
  by (induction xs) (auto split: if_splits)

lemma Assignment_findById_id:
  "Assignment_findById docs i = Some a \<Longrightarrow> assignment_id a = i"
  unfolding Assignment_findById_def by (drule find_Some_holds) simp

lemma submissions_id_id:
  "submissions_id subs i = Some s \<Longrightarrow> submission_id s = i"
  unfolding submissions_id_def by (drule find_Some_holds) simp

lemma submissions_id_put:
  "submissions_id subs i = Some s \<Longrightarrow> submission_id s' = i \<Longrightarrow>
   submissions_id (put_submission s' subs) i = Some s'"
  unfolding submissions_id_def by (induction subs) (auto split: if_splits)

lemma Assignment_findById_save:
  "Assignment_findById docs i = Some a \<Longrightarrow> assignment_id a' = i \<Longrightarrow>
   Assignment_findById (save a' docs) i = Some a'"
  unfolding Assignment_findById_def by (induction docs) (auto split: if_splits)

lemma try_block_authenticated:
  "passes_authentication e req token decoded \<Longrightarrow>
   try_block e req db = read_body_and_grade e decoded req db"
  by (simp add: passes_authentication_def try_block_def)

lemma read_body_validated:
  "passes_body_validation req b g fb \<Longrightarrow>
   read_body_and_grade e decoded req db =
     (case db_failure e ConnectToDatabase of
        Some x \<Rightarrow> (Inl x, db)
      | None \<Rightarrow> find_and_grade e decoded g fb req db)"
  by (simp add: passes_body_validation_def read_body_and_grade_def)

lemma find_and_grade_found:
  "passes_lookup db req decoded a s \<Longrightarrow> db_failure e AssignmentFindById = None \<Longrightarrow>
   find_and_grade e decoded g fb req db = grade_and_notify e decoded g fb a s db"
  by (simp add: passes_lookup_def find_and_grade_def)

lemma try_block_checked:
  assumes "passes_authentication e req token decoded"
    and "passes_body_validation req b g fb"
    and "passes_lookup db req decoded a s"
    and "db_failure e ConnectToDatabase = None"
    and "db_failure e AssignmentFindById = None"
  shows "try_block e req db = grade_and_notify e decoded g fb a s db"
  using assms
  by (simp add: try_block_authenticated read_body_validated find_and_grade_found)

lemma grade_and_notify_save_fails:
  "db_failure e AssignmentSave = Some x \<Longrightarrow>
   grade_and_notify e decoded g fb a s db = (Inl x, db)"
  by (simp add: grade_and_notify_def)

lemma grade_and_notify_lookup_fails:
  "db_failure e AssignmentSave = None \<Longrightarrow> db_failure e TeacherFindById = Some x \<Longrightarrow>
   grade_and_notify e decoded g fb a s db = (Inl x, saved e g fb a s db)"
  by (simp add: grade_and_notify_def saved_def graded_assignment_def graded_def Let_def)

lemma grade_and_notify_no_teacher:
  "db_failure e AssignmentSave = None \<Longrightarrow> db_failure e TeacherFindById = None \<Longrightarrow>
   Teacher_findById (teachers db) (userId decoded) = None \<Longrightarrow>
   grade_and_notify e decoded g fb a s db =
     (Inr (success_response e g fb s), saved e g fb a s db)"
  by (simp add: grade_and_notify_def saved_def graded_assignment_def graded_def
      success_response_def Let_def)

lemma grade_and_notify_create_fails:
  "db_failure e AssignmentSave = None \<Longrightarrow> db_failure e TeacherFindById = None \<Longrightarrow>
   Teacher_findById (teachers db) (userId decoded) = Some t \<Longrightarrow>
   db_failure e NotificationCreate = Some x \<Longrightarrow>
   grade_and_notify e decoded g fb a s db = (Inl x, saved e g fb a s db)"
  by (simp add: grade_and_notify_def saved_def graded_assignment_def graded_def Let_def)

lemma grade_and_notify_notified:
  "db_failure e AssignmentSave = None \<Longrightarrow> db_failure e TeacherFindById = None \<Longrightarrow>
   Teacher_findById (teachers db) (userId decoded) = Some t \<Longrightarrow>
   db_failure e NotificationCreate = None \<Longrightarrow>
   grade_and_notify e decoded g fb a s db =
     (Inr (success_response e g fb s),
      (saved e g fb a s db)\<lparr>notifications := notifications db @
         [graded_notification t (graded_assignment e g fb a s) (graded e g fb s)
            (userId decoded)]\<rparr>)"
  by (simp add: grade_and_notify_def saved_def graded_assignment_def graded_def
      success_response_def Let_def)

lemmas example_defs =
  verify0_def env0_def no_failure_def failure_at_def submission0_def assignment0_def
  teacher0_def store0_def request0_def body0_def teacher_cookie_def teacher_payload_def
  good_body_def grade_request_def student_cookie_def other_teacher_cookie_def
  other_teacher_payload_def forged_cookie_def feedback_only_body_def unparsable_def
  zero_body_def empty_feedback_body_def better_body_def

lemmas model_defs =
  POST_def try_block_def read_body_and_grade_def find_and_grade_def grade_and_notify_def
  auth_token_def json_error_def NextResponse_json_def property_def
  Assignment_findById_def Teacher_findById_def submissions_id_def graded_notification_def
  passes_authentication_def passes_body_validation_def passes_lookup_def
  graded_def graded_assignment_def saved_def success_response_def Let_def

lemma teacher_authenticated:
  "passes_authentication (env0 t f) (grade_request b) ''T'' teacher_payload"
  by (simp add: example_defs passes_authentication_def auth_token_def)

lemma good_body_validated:
  "passes_body_validation (grade_request (Inr good_body)) good_body (JNum 85) (JStr ''Good work'')"
  by (simp add: example_defs passes_body_validation_def property_def)

lemma store0_lookup:
  "passes_lookup store0 (grade_request b) teacher_payload assignment0 submission0"
  by (simp add: example_defs passes_lookup_def Assignment_findById_def submissions_id_def)

subsection \<open>What each failing check and each early exception returns\<close>

lemma POST_no_token:
  "auth_token req = None \<or> auth_token req = Some [] \<Longrightarrow>
   POST e req db = (json_error ''Unauthorized'' 401, db)"
  by (auto simp: POST_def try_block_def)

lemma POST_invalid_token:
  "auth_token req = Some token \<Longrightarrow> token \<noteq> [] \<Longrightarrow>
   verify e token (JWT_SECRET e) = Inl x \<Longrightarrow>
   POST e req db = (json_error ''Invalid token'' 401, db)"
  by (simp add: POST_def try_block_def)

lemma POST_wrong_role:
  "auth_token req = Some token \<Longrightarrow> token \<noteq> [] \<Longrightarrow>
   verify e token (JWT_SECRET e) = Inr decoded \<Longrightarrow> role decoded \<noteq> ''teacher'' \<Longrightarrow>
   POST e req db =
     (json_error ''Access denied - only teachers can grade assignments'' 403, db)"
  by (simp add: POST_def try_block_def)

lemma POST_body_unparsable:
  "passes_authentication e req token decoded \<Longrightarrow> json req = Inl x \<Longrightarrow>
   POST e req db = (json_error ''Failed to grade submission'' 500, db)"
  by (simp add: POST_def try_block_authenticated read_body_and_grade_def)

lemma POST_body_nullish:
  "passes_authentication e req token decoded \<Longrightarrow> json req = Inr b \<Longrightarrow>
   destructure b = Inl x \<Longrightarrow>
   POST e req db = (json_error ''Failed to grade submission'' 500, db)"
  by (simp add: POST_def try_block_authenticated read_body_and_grade_def)

lemma POST_missing_fields:
  "passes_authentication e req token decoded \<Longrightarrow> json req = Inr b \<Longrightarrow>
   destructure b = Inr (g, fb) \<Longrightarrow> g = JUndefined \<or> \<not> truthy fb \<Longrightarrow>
   POST e req db = (json_error ''Grade and feedback are required'' 400, db)"
  by (auto simp: POST_def try_block_authenticated read_body_and_grade_def)

lemma POST_connect_fails:
  "passes_authentication e req token decoded \<Longrightarrow> passes_body_validation req b g fb \<Longrightarrow>
   db_failure e ConnectToDatabase = Some x \<Longrightarrow>
   POST e req db = (json_error ''Failed to grade submission'' 500, db)"
  by (simp add: POST_def try_block_authenticated read_body_validated)

lemma POST_find_fails:
  "passes_authentication e req token decoded \<Longrightarrow> passes_body_validation req b g fb \<Longrightarrow>
   db_failure e ConnectToDatabase = None \<Longrightarrow> db_failure e AssignmentFindById = Some x \<Longrightarrow>
   POST e req db = (json_error ''Failed to grade submission'' 500, db)"
  by (simp add: POST_def try_block_authenticated read_body_validated find_and_grade_def)

lemma POST_no_assignment:
  "passes_authentication e req token decoded \<Longrightarrow> passes_body_validation req b g fb \<Longrightarrow>
   db_failure e ConnectToDatabase = None \<Longrightarrow> db_failure e AssignmentFindById = None \<Longrightarrow>
   Assignment_findById (assignments db) (param_id req) = None \<Longrightarrow>
   POST e req db = (json_error ''Assignment not found'' 404, db)"
  by (simp add: POST_def try_block_authenticated read_body_validated find_and_grade_def)

lemma POST_not_owner:
  "passes_authentication e req token decoded \<Longrightarrow> passes_body_validation req b g fb \<Longrightarrow>
   db_failure e ConnectToDatabase = None \<Longrightarrow> db_failure e AssignmentFindById = None \<Longrightarrow>
   Assignment_findById (assignments db) (param_id req) = Some a \<Longrightarrow>
   teacherId a \<noteq> userId decoded \<Longrightarrow>
   POST e req db = (json_error ''Not authorized to grade this assignment'' 403, db)"
  by (simp add: POST_def try_block_authenticated read_body_validated find_and_grade_def)

lemma POST_no_submission:
  "passes_authentication e req token decoded \<Longrightarrow> passes_body_validation req b g fb \<Longrightarrow>
   db_failure e ConnectToDatabase = None \<Longrightarrow> db_failure e AssignmentFindById = None \<Longrightarrow>
   Assignment_findById (assignments db) (param_id req) = Some a \<Longrightarrow>
   teacherId a = userId decoded \<Longrightarrow>
   submissions_id (submissions a) (param_submissionId req) = None \<Longrightarrow>
   POST e req db = (json_error ''Submission not found'' 404, db)"
  by (simp add: POST_def try_block_authenticated read_body_validated find_and_grade_def)

text \<open>The store changes only on the way to the 200 response or to the 500 of the catch.\<close>

lemma grade_and_notify_returns:
  "grade_and_notify e decoded g fb a s db = (Inr r, db') \<Longrightarrow> status_code r = 200"
  by (auto simp: grade_and_notify_def Let_def NextResponse_json_def
      split: option.splits)

lemma find_and_grade_returns:
  "find_and_grade e decoded g fb req db = (Inr r, db') \<Longrightarrow> status_code r = 200 \<or> db' = db"
  by (auto simp: find_and_grade_def dest: grade_and_notify_returns
      split: option.splits if_splits)

lemma read_body_returns:
  "read_body_and_grade e decoded req db = (Inr r, db') \<Longrightarrow> status_code r = 200 \<or> db' = db"
  by (auto simp: read_body_and_grade_def dest: find_and_grade_returns
      split: option.splits sum.splits if_splits)

lemma try_block_returns:
  "try_block e req db = (Inr r, db') \<Longrightarrow> status_code r = 200 \<or> db' = db"
  by (auto simp: try_block_def dest: read_body_returns
      split: option.splits sum.splits if_splits)

lemma POST_writes_only_on_200_or_500:
  "status_code (fst (POST e req db)) \<noteq> 200 \<Longrightarrow>
   status_code (fst (POST e req db)) \<noteq> 500 \<Longrightarrow> snd (POST e req db) = db"
proof -
  assume a: "status_code (fst (POST e req db)) \<noteq> 200"
    and b: "status_code (fst (POST e req db)) \<noteq> 500"
  obtain r db' where t: "try_block e req db = (r, db')"
    by (cases "try_block e req db")
  show ?thesis
  proof (cases r)
    case (Inl x)
    with t b show ?thesis
      by (simp add: POST_def json_error_def NextResponse_json_def)
  next
    case (Inr r')
    with t a try_block_returns [of e req db r' db'] show ?thesis
      by (simp add: POST_def)
  qed
qed

text \<open>Past the body validation no response has status 400.\<close>

lemma find_and_grade_status:
  "find_and_grade e decoded g fb req db = (Inr r, db') \<Longrightarrow> status_code r \<in> {200, 403, 404}"
  by (auto simp: find_and_grade_def json_error_def NextResponse_json_def
      dest: grade_and_notify_returns split: option.splits if_splits)

lemma POST_validated_not_400:
  assumes "passes_authentication e req token decoded"
    and "passes_body_validation req b g fb"
  shows "status_code (fst (POST e req db)) \<noteq> 400"
proof (cases "db_failure e ConnectToDatabase")
  case (Some x)
  then show ?thesis
    using assms by (simp add: POST_connect_fails json_error_def NextResponse_json_def)
next
  case None
  obtain r db' where f: "find_and_grade e decoded g fb req db = (r, db')"
    by (cases "find_and_grade e decoded g fb req db")
  have t: "try_block e req db = (r, db')"
    using assms None f by (simp add: try_block_authenticated read_body_validated)
  show ?thesis
  proof (cases r)
    case (Inl x)
    then show ?thesis
      using t by (simp add: POST_def json_error_def NextResponse_json_def)
  next
    case (Inr r')
    then show ?thesis
      using t f find_and_grade_status [of e decoded g fb req db r' db']
      by (auto simp: POST_def)
  qed
qed

lemma POST_400_only_from_validation:
  assumes "passes_authentication e req token decoded"
    and "status_code (fst (POST e req db)) = 400"
  shows "\<exists>b g fb. json req = Inr b \<and> destructure b = Inr (g, fb) \<and>
           (g = JUndefined \<or> \<not> truthy fb)"
proof (cases "json req")
  case (Inl x)
  then show ?thesis
    using assms by (simp add: POST_body_unparsable json_error_def NextResponse_json_def)
next
  case (Inr b)
  show ?thesis
  proof (cases "destructure b")
    case (Inl x)
    then show ?thesis
      using assms Inr by (simp add: POST_body_nullish json_error_def NextResponse_json_def)
  next
    case inr: (Inr p)
    obtain g fb where p: "p = (g, fb)" by (cases p)
    show ?thesis
    proof (cases "g = JUndefined \<or> \<not> truthy fb")
      case True
      then show ?thesis using Inr inr p by blast
    next
      case False
      then have "passes_body_validation req b g fb"
        using Inr inr p by (simp add: passes_body_validation_def)
      then show ?thesis
        using assms POST_validated_not_400 by blast
    qed
  qed
qed

text \<open>Once the save has gone through, the stored aggregate is the graded one.\<close>

lemma grade_and_notify_assignments:
  "db_failure e AssignmentSave = None \<Longrightarrow>
   assignments (snd (grade_and_notify e decoded g fb a s db)) =
     save (graded_assignment e g fb a s) (assignments db)"
  by (simp add: grade_and_notify_def graded_assignment_def graded_def Let_def
      split: option.splits)

lemma grade_and_notify_notifications:
  "notifications (snd (grade_and_notify e decoded g fb a s db)) \<noteq> notifications db \<Longrightarrow>
   db_failure e AssignmentSave = None"
  by (auto simp: grade_and_notify_def Let_def split: option.splits)

lemma snd_POST: "snd (POST e req db) = snd (try_block e req db)"
  by (simp add: POST_def split: prod.splits sum.splits)

lemma stored_graded_submission:
  assumes "passes_lookup db req decoded a s"
  shows "Assignment_findById (save (graded_assignment e g fb a s) (assignments db))
           (param_id req) = Some (graded_assignment e g fb a s)
       \<and> submissions_id (submissions (graded_assignment e g fb a s))
           (param_submissionId req) = Some (graded e g fb s)"
proof -
  have found: "Assignment_findById (assignments db) (param_id req) = Some a"
    and sub: "submissions_id (submissions a) (param_submissionId req) = Some s"
    using assms by (simp_all add: passes_lookup_def)
  have aid: "assignment_id (graded_assignment e g fb a s) = param_id req"
    using Assignment_findById_id [OF found] by (simp add: graded_assignment_def)
  have sid: "submission_id (graded e g fb s) = param_submissionId req"
    using submissions_id_id [OF sub] by (simp add: graded_def)
  show ?thesis
    using Assignment_findById_save [OF found aid] submissions_id_put [OF sub sid]
    by (simp add: graded_assignment_def)
qed

subsection \<open>After the save: the teacher lookup and the notification\<close>

text \<open>
  Claim C1, as amended. When all seven checks pass and the aggregate is saved, a teacher
  record that is absent does not change the outcome: the handler returns the 200 success
  response and the store is the saved one. An exception of the teacher lookup, or of the
  notification creation, is not caught apart: it reaches the handler's \<^verbatim>\<open>catch\<close>,
  and the handler returns 500 "Failed to grade submission", with the graded aggregate saved
  and no notification created.
\<close>

theorem POST_after_save:
  assumes "passes_authentication e req token decoded"
    and "passes_body_validation req b g fb"
    and "passes_lookup db req decoded a s"
    and "db_failure e ConnectToDatabase = None"
    and "db_failure e AssignmentFindById = None"
    and "db_failure e AssignmentSave = None"
  shows "(db_failure e TeacherFindById = None \<and>
          Teacher_findById (teachers db) (userId decoded) = None \<longrightarrow>
            POST e req db = (success_response e g fb s, saved e g fb a s db))
       \<and> (\<forall>x. db_failure e TeacherFindById = Some x \<longrightarrow>
            POST e req db =
              (json_error ''Failed to grade submission'' 500, saved e g fb a s db))
       \<and> (\<forall>x t. db_failure e TeacherFindById = None \<and>
            Teacher_findById (teachers db) (userId decoded) = Some t \<and>
            db_failure e NotificationCreate = Some x \<longrightarrow>
            POST e req db =
              (json_error ''Failed to grade submission'' 500, saved e g fb a s db))"
proof -
  have body: "try_block e req db = grade_and_notify e decoded g fb a s db"
    using assms(1-5) by (rule try_block_checked)
  show ?thesis
    using assms(6)
    by (simp add: POST_def body grade_and_notify_no_teacher grade_and_notify_lookup_fails
        grade_and_notify_create_fails)
qed

theorem POST_after_save_witness:
  "POST (env0 1000 no_failure) (grade_request (Inr good_body)) (store0\<lparr>teachers := []\<rparr>)
     = (\<lparr>status_code = 200,
         body = Success ''Submission graded successfully''
           (submission0\<lparr>grade := JNum 85, feedback := JStr ''Good work'',
              status := ''graded'', gradedAt := Some 1000\<rparr>)\<rparr>,
        \<lparr>assignments = [assignment0\<lparr>submissions :=
             [submission0\<lparr>grade := JNum 85, feedback := JStr ''Good work'',
                status := ''graded'', gradedAt := Some 1000\<rparr>]\<rparr>],
         teachers = [], notifications = []\<rparr>)
   \<and> POST (env0 1000 (failure_at TeacherFindById)) (grade_request (Inr good_body)) store0
     = (\<lparr>status_code = 500, body = Failure ''Failed to grade submission''\<rparr>,
        store0\<lparr>assignments := [assignment0\<lparr>submissions :=
             [submission0\<lparr>grade := JNum 85, feedback := JStr ''Good work'',
                status := ''graded'', gradedAt := Some 1000\<rparr>]\<rparr>]\<rparr>)
   \<and> POST (env0 1000 (failure_at NotificationCreate)) (grade_request (Inr good_body)) store0
     = (\<lparr>status_code = 500, body = Failure ''Failed to grade submission''\<rparr>,
        store0\<lparr>assignments := [assignment0\<lparr>submissions :=
             [submission0\<lparr>grade := JNum 85, feedback := JStr ''Good work'',
                status := ''graded'', gradedAt := Some 1000\<rparr>]\<rparr>]\<rparr>)"
proof -
  have lookup: "passes_lookup (store0\<lparr>teachers := []\<rparr>) (grade_request (Inr good_body))
      teacher_payload assignment0 submission0"
    by (simp add: example_defs passes_lookup_def Assignment_findById_def submissions_id_def)
  have 1: "POST (env0 1000 no_failure) (grade_request (Inr good_body)) (store0\<lparr>teachers := []\<rparr>)
      = (success_response (env0 1000 no_failure) (JNum 85) (JStr ''Good work'') submission0,
         saved (env0 1000 no_failure) (JNum 85) (JStr ''Good work'') assignment0 submission0
           (store0\<lparr>teachers := []\<rparr>))"
    using POST_after_save [OF teacher_authenticated good_body_validated lookup,
        of 1000 no_failure]
    by (simp add: example_defs Teacher_findById_def)
  have 2: "POST (env0 1000 (failure_at TeacherFindById)) (grade_request (Inr good_body)) store0
      = (json_error ''Failed to grade submission'' 500,
         saved (env0 1000 (failure_at TeacherFindById)) (JNum 85) (JStr ''Good work'')
           assignment0 submission0 store0)"
    using POST_after_save [OF teacher_authenticated good_body_validated store0_lookup,
        of 1000 "failure_at TeacherFindById"]
    by (simp add: example_defs Teacher_findById_def)
  have 3: "POST (env0 1000 (failure_at NotificationCreate)) (grade_request (Inr good_body)) store0
      = (json_error ''Failed to grade submission'' 500,
         saved (env0 1000 (failure_at NotificationCreate)) (JNum 85) (JStr ''Good work'')
           assignment0 submission0 store0)"
    using POST_after_save [OF teacher_authenticated good_body_validated store0_lookup,
        of 1000 "failure_at NotificationCreate"]
    by (simp add: example_defs Teacher_findById_def)
  show ?thesis
    unfolding 1 2 3
    by (simp add: example_defs success_response_def saved_def graded_assignment_def
        graded_def json_error_def NextResponse_json_def)
qed

text \<open>
  Claim C1 as stated fails: all seven checks pass and the aggregate is saved, the teacher
  lookup throws, and the response is the 500 of the \<^verbatim>\<open>catch\<close>, not the 200 of the
  grading; the same when the notification creation throws.
\<close>

theorem POST_lookup_failure_counterexample:
  "passes_authentication (env0 1000 (failure_at TeacherFindById))
      (grade_request (Inr good_body)) ''T'' teacher_payload
   \<and> passes_body_validation (grade_request (Inr good_body)) good_body
      (JNum 85) (JStr ''Good work'')
   \<and> passes_lookup store0 (grade_request (Inr good_body)) teacher_payload
      assignment0 submission0
   \<and> snd (POST (env0 1000 (failure_at TeacherFindById)) (grade_request (Inr good_body)) store0)
      = saved (env0 1000 (failure_at TeacherFindById)) (JNum 85) (JStr ''Good work'')
          assignment0 submission0 store0
   \<and> status_code (fst (POST (env0 1000 (failure_at TeacherFindById))
        (grade_request (Inr good_body)) store0)) = 500
   \<and> status_code (fst (POST (env0 1000 (failure_at NotificationCreate))
        (grade_request (Inr good_body)) store0)) = 500
   \<and> fst (POST (env0 1000 (failure_at TeacherFindById)) (grade_request (Inr good_body)) store0)
      \<noteq> success_response (env0 1000 (failure_at TeacherFindById)) (JNum 85)
          (JStr ''Good work'') submission0"
  by (simp add: example_defs model_defs)

subsection \<open>A failing check writes nothing\<close>

text \<open>
  Claim C2. A request that fails one of the seven checks (no cookie, invalid token, wrong
  role, missing grade or empty feedback, assignment not found, caller not the owner,
  submission not found) gets the failure response of that check, and the store the handler
  leaves is the store it found: no aggregate is saved and no notification is created. More
  generally, whenever the response has status 400, 401, 403 or 404, the store is unchanged.
\<close>

theorem failed_check_writes_nothing:
  "(auth_token req = None \<or> auth_token req = Some [] \<longrightarrow>
      POST e req db = (json_error ''Unauthorized'' 401, db))
   \<and> (auth_token req = Some token \<and> token \<noteq> [] \<and>
       verify e token (JWT_SECRET e) = Inl x \<longrightarrow>
      POST e req db = (json_error ''Invalid token'' 401, db))
   \<and> (auth_token req = Some token \<and> token \<noteq> [] \<and>
       verify e token (JWT_SECRET e) = Inr decoded \<and> role decoded \<noteq> ''teacher'' \<longrightarrow>
      POST e req db =
        (json_error ''Access denied - only teachers can grade assignments'' 403, db))
   \<and> (passes_authentication e req token decoded \<and> json req = Inr b \<and>
       destructure b = Inr (g, fb) \<and> (g = JUndefined \<or> \<not> truthy fb) \<longrightarrow>
      POST e req db = (json_error ''Grade and feedback are required'' 400, db))
   \<and> (passes_authentication e req token decoded \<and> passes_body_validation req b g fb \<and>
       db_failure e ConnectToDatabase = None \<and> db_failure e AssignmentFindById = None \<longrightarrow>
        (Assignment_findById (assignments db) (param_id req) = None \<longrightarrow>
           POST e req db = (json_error ''Assignment not found'' 404, db))
      \<and> (Assignment_findById (assignments db) (param_id req) = Some a \<and>
         teacherId a \<noteq> userId decoded \<longrightarrow>
           POST e req db = (json_error ''Not authorized to grade this assignment'' 403, db))
      \<and> (Assignment_findById (assignments db) (param_id req) = Some a \<and>
         teacherId a = userId decoded \<and>
         submissions_id (submissions a) (param_submissionId req) = None \<longrightarrow>
           POST e req db = (json_error ''Submission not found'' 404, db)))
   \<and> (status_code (fst (POST e req db)) \<in> {400, 401, 403, 404} \<longrightarrow>
        snd (POST e req db) = db)"
proof -
  have general: "status_code (fst (POST e req db)) \<in> {400, 401, 403, 404} \<longrightarrow>
      snd (POST e req db) = db"
    using POST_writes_only_on_200_or_500 [of e req db] by auto
  show ?thesis
    using general
    by (auto simp: POST_no_token POST_invalid_token POST_wrong_role POST_missing_fields
        POST_no_assignment POST_not_owner POST_no_submission)
qed

theorem failed_check_writes_nothing_witness:
  "POST (env0 1000 no_failure) (request0 [] ''a1'' ''s1'' (Inr good_body)) store0
     = (\<lparr>status_code = 401, body = Failure ''Unauthorized''\<rparr>, store0)
   \<and> POST (env0 1000 no_failure) (request0 forged_cookie ''a1'' ''s1'' (Inr good_body)) store0
     = (\<lparr>status_code = 401, body = Failure ''Invalid token''\<rparr>, store0)
   \<and> POST (env0 1000 no_failure) (request0 student_cookie ''a1'' ''s1'' (Inr good_body)) store0
     = (\<lparr>status_code = 403,
         body = Failure ''Access denied - only teachers can grade assignments''\<rparr>, store0)
   \<and> POST (env0 1000 no_failure) (grade_request (Inr feedback_only_body)) store0
     = (\<lparr>status_code = 400, body = Failure ''Grade and feedback are required''\<rparr>, store0)
   \<and> POST (env0 1000 no_failure) (request0 teacher_cookie ''a2'' ''s1'' (Inr good_body)) store0
     = (\<lparr>status_code = 404, body = Failure ''Assignment not found''\<rparr>, store0)
   \<and> POST (env0 1000 no_failure)
        (request0 other_teacher_cookie ''a1'' ''s1'' (Inr good_body)) store0
     = (\<lparr>status_code = 403, body = Failure ''Not authorized to grade this assignment''\<rparr>,
        store0)
   \<and> POST (env0 1000 no_failure) (request0 teacher_cookie ''a1'' ''s2'' (Inr good_body)) store0
     = (\<lparr>status_code = 404, body = Failure ''Submission not found''\<rparr>, store0)
   \<and> status_code (fst (POST (env0 1000 no_failure)
        (request0 teacher_cookie ''a1'' ''s2'' (Inr good_body)) store0)) \<in> {400, 401, 403, 404}
   \<and> snd (POST (env0 1000 no_failure)
        (request0 teacher_cookie ''a1'' ''s2'' (Inr good_body)) store0) = store0"
proof -
  note inst = failed_check_writes_nothing [where e = "env0 1000 no_failure" and db = store0
      and x = "Error ''JsonWebTokenError: jwt malformed''" and a = assignment0]
  have 1: "POST (env0 1000 no_failure) (request0 [] ''a1'' ''s1'' (Inr good_body)) store0
      = (json_error ''Unauthorized'' 401, store0)"
    using inst [where req = "request0 [] ''a1'' ''s1'' (Inr good_body)" and token = "''T''"
        and decoded = teacher_payload and b = good_body and g = "JNum 85"
        and fb = "JStr ''Good work''"]
    by (simp add: example_defs auth_token_def)
  have 2: "POST (env0 1000 no_failure) (request0 forged_cookie ''a1'' ''s1'' (Inr good_body))
      store0 = (json_error ''Invalid token'' 401, store0)"
    using inst [where req = "request0 forged_cookie ''a1'' ''s1'' (Inr good_body)"
        and token = "''X''" and decoded = teacher_payload and b = good_body and g = "JNum 85"
        and fb = "JStr ''Good work''"]
    by (simp add: example_defs auth_token_def)
  have 3: "POST (env0 1000 no_failure) (request0 student_cookie ''a1'' ''s1'' (Inr good_body))
      store0 = (json_error ''Access denied - only teachers can grade assignments'' 403, store0)"
    using inst [where req = "request0 student_cookie ''a1'' ''s1'' (Inr good_body)"
        and token = "''S''" and decoded = "\<lparr>userId = ''st1'', role = ''student''\<rparr>"
        and b = good_body and g = "JNum 85" and fb = "JStr ''Good work''"]
    by (simp add: example_defs auth_token_def)
  have 4: "POST (env0 1000 no_failure) (grade_request (Inr feedback_only_body)) store0
      = (json_error ''Grade and feedback are required'' 400, store0)"
    using inst [where req = "grade_request (Inr feedback_only_body)" and token = "''T''"
        and decoded = teacher_payload and b = feedback_only_body and g = JUndefined
        and fb = "JStr ''Good work''"]
    by (simp add: example_defs auth_token_def passes_authentication_def property_def)
  have 5: "POST (env0 1000 no_failure) (request0 teacher_cookie ''a2'' ''s1'' (Inr good_body))
      store0 = (json_error ''Assignment not found'' 404, store0)"
    using inst [where req = "request0 teacher_cookie ''a2'' ''s1'' (Inr good_body)"
        and token = "''T''" and decoded = teacher_payload and b = good_body and g = "JNum 85"
        and fb = "JStr ''Good work''"]
    by (simp add: example_defs auth_token_def passes_authentication_def property_def
        passes_body_validation_def Assignment_findById_def)
  have 6: "POST (env0 1000 no_failure)
      (request0 other_teacher_cookie ''a1'' ''s1'' (Inr good_body)) store0
      = (json_error ''Not authorized to grade this assignment'' 403, store0)"
    using inst [where req = "request0 other_teacher_cookie ''a1'' ''s1'' (Inr good_body)"
        and token = "''U''" and decoded = other_teacher_payload and b = good_body
        and g = "JNum 85" and fb = "JStr ''Good work''"]
    by (simp add: example_defs auth_token_def passes_authentication_def property_def
        passes_body_validation_def Assignment_findById_def)
  have 7: "POST (env0 1000 no_failure) (request0 teacher_cookie ''a1'' ''s2'' (Inr good_body))
      store0 = (json_error ''Submission not found'' 404, store0)"
    using inst [where req = "request0 teacher_cookie ''a1'' ''s2'' (Inr good_body)"
        and token = "''T''" and decoded = teacher_payload and b = good_body and g = "JNum 85"
        and fb = "JStr ''Good work''"]
    by (simp add: example_defs auth_token_def passes_authentication_def property_def
        passes_body_validation_def Assignment_findById_def submissions_id_def)
  show ?thesis
    unfolding 1 2 3 4 5 6 7 by (simp add: json_error_def NextResponse_json_def)
qed

subsection \<open>The grading itself\<close>

text \<open>
  Claim C3. When all seven checks pass (and no database call throws), the handler sets the
  found submission's grade and feedback to the values of the body, its status to "graded"
  and its gradedAt to the current time, saves the whole aggregate, and returns 200 with the
  message of success and the updated submission. In the store it leaves, the assignment
  looked up by the request's id is the updated aggregate, and the submission looked up in it
  by the request's submission id has the body's grade and feedback, status "graded" and a
  gradedAt that is set.
\<close>

theorem POST_grades_submission:
  assumes "passes_authentication e req token decoded"
    and "passes_body_validation req b g fb"
    and "passes_lookup db req decoded a s"
    and "\<forall>c. db_failure e c = None"
  shows "fst (POST e req db) =
           \<lparr>status_code = 200,
            body = Success ''Submission graded successfully''
              (s\<lparr>grade := g, feedback := fb, status := ''graded'',
                 gradedAt := Some (current_date e)\<rparr>)\<rparr>
       \<and> assignments (snd (POST e req db)) =
           save (a\<lparr>submissions := put_submission
                   (s\<lparr>grade := g, feedback := fb, status := ''graded'',
                      gradedAt := Some (current_date e)\<rparr>) (submissions a)\<rparr>)
             (assignments db)
       \<and> (\<exists>a' s'. Assignment_findById (assignments (snd (POST e req db))) (param_id req)
              = Some a'
            \<and> submissions_id (submissions a') (param_submissionId req) = Some s'
            \<and> s' = s\<lparr>grade := g, feedback := fb, status := ''graded'',
                      gradedAt := Some (current_date e)\<rparr>
            \<and> grade s' = g \<and> feedback s' = fb \<and> status s' = ''graded''
            \<and> gradedAt s' \<noteq> None)"
proof -
  have ok: "db_failure e ConnectToDatabase = None" "db_failure e AssignmentFindById = None"
    "db_failure e AssignmentSave = None" "db_failure e TeacherFindById = None"
    "db_failure e NotificationCreate = None"
    using assms(4) by simp_all
  have body: "try_block e req db = grade_and_notify e decoded g fb a s db"
    using assms(1-3) ok(1,2) by (rule try_block_checked)
  have found: "Assignment_findById (assignments db) (param_id req) = Some a"
    and sub: "submissions_id (submissions a) (param_submissionId req) = Some s"
    using assms(3) by (simp_all add: passes_lookup_def)
  have aid: "assignment_id (graded_assignment e g fb a s) = param_id req"
    using Assignment_findById_id [OF found] by (simp add: graded_assignment_def)
  have sid: "submission_id (graded e g fb s) = param_submissionId req"
    using submissions_id_id [OF sub] by (simp add: graded_def)
  have stored: "Assignment_findById (save (graded_assignment e g fb a s) (assignments db))
      (param_id req) = Some (graded_assignment e g fb a s)"
    using found aid by (rule Assignment_findById_save)
  have inside: "submissions_id (submissions (graded_assignment e g fb a s))
      (param_submissionId req) = Some (graded e g fb s)"
    using submissions_id_put [OF sub sid] by (simp add: graded_assignment_def)
  have result: "fst (POST e req db) = success_response e g fb s
      \<and> assignments (snd (POST e req db)) =
          save (graded_assignment e g fb a s) (assignments db)"
  proof (cases "Teacher_findById (teachers db) (userId decoded)")
    case None
    then show ?thesis
      using ok(3,4) by (simp add: POST_def body grade_and_notify_no_teacher saved_def)
  next
    case (Some t)
    then show ?thesis
      using ok(3,4,5) by (simp add: POST_def body grade_and_notify_notified saved_def)
  qed
  show ?thesis
    using result stored inside
    by (simp add: success_response_def NextResponse_json_def graded_assignment_def
        graded_def)
qed

theorem POST_grades_submission_witness:
  "passes_authentication (env0 1000 no_failure) (grade_request (Inr good_body))
      ''T'' teacher_payload
   \<and> passes_body_validation (grade_request (Inr good_body)) good_body
      (JNum 85) (JStr ''Good work'')
   \<and> passes_lookup store0 (grade_request (Inr good_body)) teacher_payload
      assignment0 submission0
   \<and> fst (POST (env0 1000 no_failure) (grade_request (Inr good_body)) store0)
     = \<lparr>status_code = 200,
        body = Success ''Submission graded successfully''
          \<lparr>submission_id = ''s1'', studentId = ''st1'', grade = JNum 85,
           feedback = JStr ''Good work'', status = ''graded'', gradedAt = Some 1000\<rparr>\<rparr>
   \<and> assignments (snd (POST (env0 1000 no_failure) (grade_request (Inr good_body)) store0))
     = [\<lparr>assignment_id = ''a1'', teacherId = ''t1'', title = ''Essay'',
         submissions =
           [\<lparr>submission_id = ''s1'', studentId = ''st1'', grade = JNum 85,
             feedback = JStr ''Good work'', status = ''graded'', gradedAt = Some 1000\<rparr>]\<rparr>]"
proof -
  have nf: "\<forall>c. db_failure (env0 1000 no_failure) c = None"
    by (simp add: example_defs)
  show ?thesis
    using POST_grades_submission [OF teacher_authenticated good_body_validated
        store0_lookup nf]
    by (simp add: teacher_authenticated good_body_validated store0_lookup)
      (simp add: example_defs)
qed

subsection \<open>The order of the checks\<close>

text \<open>
  Claim C4. The response is that of the first failing check, in the order of the code: no
  (or an empty) auth-token cookie gives 401 "Unauthorized"; a token that does not verify
  gives 401 "Invalid token"; a role other than "teacher" gives 403 "Access denied - only
  teachers can grade assignments"; a missing grade or an empty feedback gives 400 "Grade and
  feedback are required"; an assignment that is not found gives 404 "Assignment not found";
  a caller who is not the assignment's teacher gives 403 "Not authorized to grade this
  assignment"; a submission that is not in the assignment gives 404 "Submission not found".
  Each case assumes the earlier checks only (and, for the checks behind a call that can
  throw, that the call did not throw): whatever the later checks would find, the response is
  the same.
\<close>

theorem first_failing_check_decides:
  "(auth_token req = None \<or> auth_token req = Some [] \<longrightarrow>
      fst (POST e req db) = \<lparr>status_code = 401, body = Failure ''Unauthorized''\<rparr>)
   \<and> (auth_token req = Some token \<and> token \<noteq> [] \<and>
       verify e token (JWT_SECRET e) = Inl x \<longrightarrow>
      fst (POST e req db) = \<lparr>status_code = 401, body = Failure ''Invalid token''\<rparr>)
   \<and> (auth_token req = Some token \<and> token \<noteq> [] \<and>
       verify e token (JWT_SECRET e) = Inr decoded \<and> role decoded \<noteq> ''teacher'' \<longrightarrow>
      fst (POST e req db) = \<lparr>status_code = 403,
        body = Failure ''Access denied - only teachers can grade assignments''\<rparr>)
   \<and> (passes_authentication e req token decoded \<and> json req = Inr b \<and>
       destructure b = Inr (g, fb) \<and> (g = JUndefined \<or> \<not> truthy fb) \<longrightarrow>
      fst (POST e req db) =
        \<lparr>status_code = 400, body = Failure ''Grade and feedback are required''\<rparr>)
   \<and> (passes_authentication e req token decoded \<and> passes_body_validation req b g fb \<and>
       db_failure e ConnectToDatabase = None \<and> db_failure e AssignmentFindById = None \<longrightarrow>
        (Assignment_findById (assignments db) (param_id req) = None \<longrightarrow>
           fst (POST e req db) = \<lparr>status_code = 404, body = Failure ''Assignment not found''\<rparr>)
      \<and> (Assignment_findById (assignments db) (param_id req) = Some a \<and>
         teacherId a \<noteq> userId decoded \<longrightarrow>
           fst (POST e req db) = \<lparr>status_code = 403,
             body = Failure ''Not authorized to grade this assignment''\<rparr>)
      \<and> (Assignment_findById (assignments db) (param_id req) = Some a \<and>
         teacherId a = userId decoded \<and>
         submissions_id (submissions a) (param_submissionId req) = None \<longrightarrow>
           fst (POST e req db) =
             \<lparr>status_code = 404, body = Failure ''Submission not found''\<rparr>))"
  by (auto simp: POST_no_token POST_invalid_token POST_wrong_role POST_missing_fields
      POST_no_assignment POST_not_owner POST_no_submission json_error_def
      NextResponse_json_def)

theorem first_failing_check_decides_witness:
  "fst (POST (env0 1000 (failure_at ConnectToDatabase))
         (request0 [] ''a2'' ''s2'' unparsable) store0)
     = \<lparr>status_code = 401, body = Failure ''Unauthorized''\<rparr>
   \<and> fst (POST (env0 1000 (failure_at ConnectToDatabase))
         (request0 [(''auth-token'', [])] ''a2'' ''s2'' unparsable) store0)
     = \<lparr>status_code = 401, body = Failure ''Unauthorized''\<rparr>
   \<and> fst (POST (env0 1000 (failure_at ConnectToDatabase))
         (request0 forged_cookie ''a2'' ''s2'' unparsable) store0)
     = \<lparr>status_code = 401, body = Failure ''Invalid token''\<rparr>
   \<and> fst (POST (env0 1000 (failure_at ConnectToDatabase))
         (request0 student_cookie ''a2'' ''s2'' unparsable) store0)
     = \<lparr>status_code = 403,
        body = Failure ''Access denied - only teachers can grade assignments''\<rparr>
   \<and> fst (POST (env0 1000 (failure_at ConnectToDatabase))
         (request0 other_teacher_cookie ''a2'' ''s2'' (Inr feedback_only_body)) store0)
     = \<lparr>status_code = 400, body = Failure ''Grade and feedback are required''\<rparr>
   \<and> fst (POST (env0 1000 (failure_at AssignmentSave))
         (request0 other_teacher_cookie ''a2'' ''s2'' (Inr good_body)) store0)
     = \<lparr>status_code = 404, body = Failure ''Assignment not found''\<rparr>
   \<and> fst (POST (env0 1000 (failure_at AssignmentSave))
         (request0 other_teacher_cookie ''a1'' ''s2'' (Inr good_body)) store0)
     = \<lparr>status_code = 403, body = Failure ''Not authorized to grade this assignment''\<rparr>
   \<and> fst (POST (env0 1000 (failure_at AssignmentSave))
         (request0 teacher_cookie ''a1'' ''s2'' (Inr good_body)) store0)
     = \<lparr>status_code = 404, body = Failure ''Submission not found''\<rparr>"
proof -
  note inst = first_failing_check_decides [where db = store0
      and x = "Error ''JsonWebTokenError: jwt malformed''" and a = assignment0]
  note early = inst [where e = "env0 1000 (failure_at ConnectToDatabase)"
      and b = feedback_only_body and g = JUndefined and fb = "JStr ''Good work''"]
  note late = inst [where e = "env0 1000 (failure_at AssignmentSave)"
      and b = good_body and g = "JNum 85" and fb = "JStr ''Good work''"]
  have 1: "fst (POST (env0 1000 (failure_at ConnectToDatabase))
      (request0 [] ''a2'' ''s2'' unparsable) store0)
      = \<lparr>status_code = 401, body = Failure ''Unauthorized''\<rparr>"
    using early [where req = "request0 [] ''a2'' ''s2'' unparsable" and token = "''T''"
        and decoded = teacher_payload]
    by (simp add: example_defs auth_token_def)
  have 8: "fst (POST (env0 1000 (failure_at ConnectToDatabase))
      (request0 [(''auth-token'', [])] ''a2'' ''s2'' unparsable) store0)
      = \<lparr>status_code = 401, body = Failure ''Unauthorized''\<rparr>"
    using early [where req = "request0 [(''auth-token'', [])] ''a2'' ''s2'' unparsable"
        and token = "''T''" and decoded = teacher_payload]
    by (simp add: example_defs auth_token_def)
  have 2: "fst (POST (env0 1000 (failure_at ConnectToDatabase))
      (request0 forged_cookie ''a2'' ''s2'' unparsable) store0)
      = \<lparr>status_code = 401, body = Failure ''Invalid token''\<rparr>"
    using early [where req = "request0 forged_cookie ''a2'' ''s2'' unparsable"
        and token = "''X''" and decoded = teacher_payload]
    by (simp add: example_defs auth_token_def)
  have 3: "fst (POST (env0 1000 (failure_at ConnectToDatabase))
      (request0 student_cookie ''a2'' ''s2'' unparsable) store0)
      = \<lparr>status_code = 403,
         body = Failure ''Access denied - only teachers can grade assignments''\<rparr>"
    using early [where req = "request0 student_cookie ''a2'' ''s2'' unparsable"
        and token = "''S''" and decoded = "\<lparr>userId = ''st1'', role = ''student''\<rparr>"]
    by (simp add: example_defs auth_token_def)
  have 4: "fst (POST (env0 1000 (failure_at ConnectToDatabase))
      (request0 other_teacher_cookie ''a2'' ''s2'' (Inr feedback_only_body)) store0)
      = \<lparr>status_code = 400, body = Failure ''Grade and feedback are required''\<rparr>"
    using early [where req = "request0 other_teacher_cookie ''a2'' ''s2''
          (Inr feedback_only_body)"
        and token = "''U''" and decoded = other_teacher_payload]
    by (simp add: example_defs auth_token_def passes_authentication_def property_def)
  have 5: "fst (POST (env0 1000 (failure_at AssignmentSave))
      (request0 other_teacher_cookie ''a2'' ''s2'' (Inr good_body)) store0)
      = \<lparr>status_code = 404, body = Failure ''Assignment not found''\<rparr>"
    using late [where req = "request0 other_teacher_cookie ''a2'' ''s2'' (Inr good_body)"
        and token = "''U''" and decoded = other_teacher_payload]
    by (simp add: example_defs auth_token_def passes_authentication_def property_def
        passes_body_validation_def Assignment_findById_def)
  have 6: "fst (POST (env0 1000 (failure_at AssignmentSave))
      (request0 other_teacher_cookie ''a1'' ''s2'' (Inr good_body)) store0)
      = \<lparr>status_code = 403, body = Failure ''Not authorized to grade this assignment''\<rparr>"
    using late [where req = "request0 other_teacher_cookie ''a1'' ''s2'' (Inr good_body)"
        and token = "''U''" and decoded = other_teacher_payload]
    by (simp add: example_defs auth_token_def passes_authentication_def property_def
        passes_body_validation_def Assignment_findById_def)
  have 7: "fst (POST (env0 1000 (failure_at AssignmentSave))
      (request0 teacher_cookie ''a1'' ''s2'' (Inr good_body)) store0)
      = \<lparr>status_code = 404, body = Failure ''Submission not found''\<rparr>"
    using late [where req = "request0 teacher_cookie ''a1'' ''s2'' (Inr good_body)"
        and token = "''T''" and decoded = teacher_payload]
    by (simp add: example_defs auth_token_def passes_authentication_def property_def
        passes_body_validation_def Assignment_findById_def submissions_id_def)
  show ?thesis
    using 1 8 2 3 4 5 6 7 by simp
qed

subsection \<open>The validation of the body\<close>

text \<open>
  Claim C5. With a valid teacher token and a body that parses: a grade that is undefined
  gives 400 "Grade and feedback are required" whatever the feedback, and so does an empty
  feedback whatever the grade; a grade of exactly 0 with a non-empty feedback passes the
  validation (the response is not the 400), and the request succeeds with grade 0 when the
  lookups pass and no database call throws. The 400 comes from nothing else: if the
  response has status 400, the body parsed and its grade is undefined or its feedback is
  falsy.
\<close>

theorem body_validation_rejects_only_absent:
  assumes "passes_authentication e req token decoded"
  shows "(\<forall>b fb. json req = Inr b \<and> destructure b = Inr (JUndefined, fb) \<longrightarrow>
            POST e req db =
              (\<lparr>status_code = 400, body = Failure ''Grade and feedback are required''\<rparr>, db))
       \<and> (\<forall>b g. json req = Inr b \<and> destructure b = Inr (g, JStr []) \<longrightarrow>
            POST e req db =
              (\<lparr>status_code = 400, body = Failure ''Grade and feedback are required''\<rparr>, db))
       \<and> (\<forall>b f. json req = Inr b \<and> destructure b = Inr (JNum 0, JStr f) \<and> f \<noteq> [] \<longrightarrow>
            status_code (fst (POST e req db)) \<noteq> 400
          \<and> (\<forall>a s. passes_lookup db req decoded a s \<and> (\<forall>c. db_failure e c = None) \<longrightarrow>
                fst (POST e req db) =
                  \<lparr>status_code = 200,
                   body = Success ''Submission graded successfully''
                     (s\<lparr>grade := JNum 0, feedback := JStr f, status := ''graded'',
                        gradedAt := Some (current_date e)\<rparr>)\<rparr>))
       \<and> (status_code (fst (POST e req db)) = 400 \<longrightarrow>
            (\<exists>b g fb. json req = Inr b \<and> destructure b = Inr (g, fb) \<and>
               (g = JUndefined \<or> \<not> truthy fb)))"
proof (intro conjI allI impI)
  fix b fb
  assume "json req = Inr b \<and> destructure b = Inr (JUndefined, fb)"
  then show "POST e req db =
      (\<lparr>status_code = 400, body = Failure ''Grade and feedback are required''\<rparr>, db)"
    using POST_missing_fields [OF assms, of b JUndefined fb db]
    by (simp add: json_error_def NextResponse_json_def)
next
  fix b g
  assume "json req = Inr b \<and> destructure b = Inr (g, JStr [])"
  then show "POST e req db =
      (\<lparr>status_code = 400, body = Failure ''Grade and feedback are required''\<rparr>, db)"
    using POST_missing_fields [OF assms, of b g "JStr []" db]
    by (simp add: json_error_def NextResponse_json_def)
next
  fix b f
  assume "json req = Inr b \<and> destructure b = Inr (JNum 0, JStr f) \<and> f \<noteq> []"
  then have "passes_body_validation req b (JNum 0) (JStr f)"
    by (simp add: passes_body_validation_def)
  then show "status_code (fst (POST e req db)) \<noteq> 400"
    using assms by (rule POST_validated_not_400 [rotated])
next
  fix b f a s
  assume body: "json req = Inr b \<and> destructure b = Inr (JNum 0, JStr f) \<and> f \<noteq> []"
    and rest: "passes_lookup db req decoded a s \<and> (\<forall>c. db_failure e c = None)"
  have v: "passes_body_validation req b (JNum 0) (JStr f)"
    using body by (simp add: passes_body_validation_def)
  have ok: "db_failure e ConnectToDatabase = None" "db_failure e AssignmentFindById = None"
    "db_failure e AssignmentSave = None" "db_failure e TeacherFindById = None"
    "db_failure e NotificationCreate = None"
    using rest by simp_all
  have t: "try_block e req db = grade_and_notify e decoded (JNum 0) (JStr f) a s db"
    using assms v rest ok(1,2) by (simp add: try_block_checked)
  have "fst (POST e req db) = success_response e (JNum 0) (JStr f) s"
  proof (cases "Teacher_findById (teachers db) (userId decoded)")
    case None
    then show ?thesis
      using ok by (simp add: POST_def t grade_and_notify_no_teacher)
  next
    case (Some t')
    then show ?thesis
      using ok by (simp add: POST_def t grade_and_notify_notified)
  qed
  then show "fst (POST e req db) =
      \<lparr>status_code = 200,
       body = Success ''Submission graded successfully''
         (s\<lparr>grade := JNum 0, feedback := JStr f, status := ''graded'',
            gradedAt := Some (current_date e)\<rparr>)\<rparr>"
    by (simp add: success_response_def NextResponse_json_def graded_def)
next
  assume "status_code (fst (POST e req db)) = 400"
  with assms show "\<exists>b g fb. json req = Inr b \<and> destructure b = Inr (g, fb) \<and>
      (g = JUndefined \<or> \<not> truthy fb)"
    by (rule POST_400_only_from_validation)
qed

theorem body_validation_rejects_only_absent_witness:
  "POST (env0 1000 no_failure) (grade_request (Inr feedback_only_body)) store0
     = (\<lparr>status_code = 400, body = Failure ''Grade and feedback are required''\<rparr>, store0)
   \<and> POST (env0 1000 no_failure) (grade_request (Inr empty_feedback_body)) store0
     = (\<lparr>status_code = 400, body = Failure ''Grade and feedback are required''\<rparr>, store0)
   \<and> status_code (fst (POST (env0 1000 no_failure) (grade_request (Inr zero_body)) store0))
     \<noteq> 400
   \<and> fst (POST (env0 1000 no_failure) (grade_request (Inr zero_body)) store0)
     = \<lparr>status_code = 200,
        body = Success ''Submission graded successfully''
          \<lparr>submission_id = ''s1'', studentId = ''st1'', grade = JNum 0,
           feedback = JStr ''Good work'', status = ''graded'', gradedAt = Some 1000\<rparr>\<rparr>
   \<and> status_code (fst (POST (env0 1000 no_failure)
        (grade_request (Inr feedback_only_body)) store0)) = 400
   \<and> (\<exists>b g fb. json (grade_request (Inr feedback_only_body)) = Inr b \<and>
        destructure b = Inr (g, fb) \<and> (g = JUndefined \<or> \<not> truthy fb))"
proof -
  note inst = body_validation_rejects_only_absent [where e = "env0 1000 no_failure"
      and token = "''T''" and decoded = teacher_payload and db = store0]
  note absent = inst [where req = "grade_request (Inr feedback_only_body)",
      OF teacher_authenticated]
  note empty = inst [where req = "grade_request (Inr empty_feedback_body)",
      OF teacher_authenticated]
  note zero = inst [where req = "grade_request (Inr zero_body)", OF teacher_authenticated]
  have 1: "POST (env0 1000 no_failure) (grade_request (Inr feedback_only_body)) store0
      = (\<lparr>status_code = 400, body = Failure ''Grade and feedback are required''\<rparr>, store0)"
    using absent [THEN conjunct1, rule_format, of feedback_only_body "JStr ''Good work''"]
    by (simp add: example_defs property_def)
  have 2: "POST (env0 1000 no_failure) (grade_request (Inr empty_feedback_body)) store0
      = (\<lparr>status_code = 400, body = Failure ''Grade and feedback are required''\<rparr>, store0)"
    using empty [THEN conjunct2, THEN conjunct1, rule_format, of empty_feedback_body "JNum 85"]
    by (simp add: example_defs property_def)
  have z: "json (grade_request (Inr zero_body)) = Inr zero_body \<and>
      destructure zero_body = Inr (JNum 0, JStr ''Good work'') \<and> ''Good work'' \<noteq> []"
    by (simp add: example_defs property_def)
  note passed = zero [THEN conjunct2, THEN conjunct2, THEN conjunct1, rule_format, OF z]
  have 3: "status_code (fst (POST (env0 1000 no_failure) (grade_request (Inr zero_body))
      store0)) \<noteq> 400"
    using passed by simp
  have nf: "passes_lookup store0 (grade_request (Inr zero_body)) teacher_payload
      assignment0 submission0 \<and> (\<forall>c. db_failure (env0 1000 no_failure) c = None)"
    using store0_lookup by (simp add: env0_def no_failure_def)
  have 4: "fst (POST (env0 1000 no_failure) (grade_request (Inr zero_body)) store0)
      = \<lparr>status_code = 200,
         body = Success ''Submission graded successfully''
           \<lparr>submission_id = ''s1'', studentId = ''st1'', grade = JNum 0,
            feedback = JStr ''Good work'', status = ''graded'', gradedAt = Some 1000\<rparr>\<rparr>"
    using passed [THEN conjunct2, rule_format, OF nf]
    by (simp add: example_defs)
  have 5: "\<exists>b g fb. json (grade_request (Inr feedback_only_body)) = Inr b \<and>
      destructure b = Inr (g, fb) \<and> (g = JUndefined \<or> \<not> truthy fb)"
    using absent [THEN conjunct2, THEN conjunct2, THEN conjunct2] 1 by simp
  show ?thesis
    using 1 2 3 4 5 by simp
qed

subsection \<open>A body that is not JSON\<close>

text \<open>
  Claim C9. When the cookie, token and role checks pass and \<^verbatim>\<open>request.json()\<close>
  throws because the body is not JSON, the handler returns 500 "Failed to grade
  submission", not the 400 of the body validation, and writes nothing.
\<close>

theorem unparsable_body_is_500:
  assumes "passes_authentication e req token decoded"
    and "json req = Inl x"
  shows "POST e req db =
           (\<lparr>status_code = 500, body = Failure ''Failed to grade submission''\<rparr>, db)
       \<and> fst (POST e req db) \<noteq>
           \<lparr>status_code = 400, body = Failure ''Grade and feedback are required''\<rparr>"
  using POST_body_unparsable [OF assms, of db]
  by (simp add: json_error_def NextResponse_json_def)

theorem unparsable_body_is_500_witness:
  "passes_authentication (env0 1000 no_failure) (grade_request unparsable) ''T'' teacher_payload
   \<and> json (grade_request unparsable)
       = Inl (Error ''SyntaxError: Unexpected token < in JSON at position 0'')
   \<and> POST (env0 1000 no_failure) (grade_request unparsable) store0
       = (\<lparr>status_code = 500, body = Failure ''Failed to grade submission''\<rparr>, store0)"
proof -
  have j: "json (grade_request unparsable)
      = Inl (Error ''SyntaxError: Unexpected token < in JSON at position 0'')"
    by (simp add: example_defs)
  show ?thesis
    using unparsable_body_is_500 [OF teacher_authenticated j, of 1000 no_failure store0]
      teacher_authenticated [of 1000 no_failure unparsable] j
    by simp
qed

subsection \<open>The grade is not checked beyond its presence\<close>



subsection \<open>Grading again\<close>

lemma POST_success_notified:
  assumes "passes_authentication e req token decoded"
    and "passes_body_validation req b g fb"
    and "passes_lookup db req decoded a s"
    and "\<forall>c. db_failure e c = None"
    and "Teacher_findById (teachers db) (userId decoded) = Some t"
  shows "POST e req db =
           (success_response e g fb s,
            (saved e g fb a s db)\<lparr>notifications := notifications db @
               [graded_notification t (graded_assignment e g fb a s) (graded e g fb s)
                  (userId decoded)]\<rparr>)"
proof -
  have "try_block e req db = grade_and_notify e decoded g fb a s db"
    using assms(1-4) by (simp add: try_block_checked)
  then show ?thesis
    using assms(4,5) by (simp add: POST_def grade_and_notify_notified)
qed

text \<open>
  Claim C6. Grading again is allowed and overwrites silently. After a successful run, a
  second run with the same cookie and the same path parameters (the same request, or one
  with another valid body), a token that verifies as before and no database failure returns
  200 again, with no error for a submission that is already graded: the stored submission
  then has the grade and feedback of the second body and the gradedAt of the second run.
  With the teacher's record in the store, each of the two runs appends its own notification:
  after the two runs the notifications are those from before followed by two new ones.
\<close>

theorem regrading_overwrites:
  assumes "passes_authentication e req token decoded"
    and "passes_body_validation req b g fb"
    and "passes_lookup db req decoded a s"
    and "\<forall>c. db_failure e c = None"
    and "Teacher_findById (teachers db) (userId decoded) = Some t"
    and "verify e2 = verify e" and "JWT_SECRET e2 = JWT_SECRET e"
    and "\<forall>c. db_failure e2 c = None"
    and "auth_token req2 = auth_token req"
    and "param_id req2 = param_id req"
    and "param_submissionId req2 = param_submissionId req"
    and "passes_body_validation req2 b2 g2 fb2"
  shows "status_code (fst (POST e req db)) = 200
       \<and> fst (POST e2 req2 (snd (POST e req db))) =
           \<lparr>status_code = 200,
            body = Success ''Submission graded successfully''
              (s\<lparr>grade := g2, feedback := fb2, status := ''graded'',
                 gradedAt := Some (current_date e2)\<rparr>)\<rparr>
       \<and> (\<exists>a'. Assignment_findById
                  (assignments (snd (POST e2 req2 (snd (POST e req db))))) (param_id req)
                = Some a'
              \<and> submissions_id (submissions a') (param_submissionId req) =
                  Some (s\<lparr>grade := g2, feedback := fb2, status := ''graded'',
                          gradedAt := Some (current_date e2)\<rparr>))
       \<and> (\<exists>n1 n2. notifications (snd (POST e req db)) = notifications db @ [n1]
              \<and> notifications (snd (POST e2 req2 (snd (POST e req db)))) =
                  notifications db @ [n1, n2]
              \<and> recipientId n1 = studentId s \<and> recipientId n2 = studentId s
              \<and> kind n1 = ''assignment_graded'' \<and> kind n2 = ''assignment_graded'')"
proof -
  let ?a1 = "graded_assignment e g fb a s"
  let ?s1 = "graded e g fb s"
  let ?n1 = "graded_notification t ?a1 ?s1 (userId decoded)"
  let ?db1 = "(saved e g fb a s db)\<lparr>notifications := notifications db @ [?n1]\<rparr>"
  let ?a2 = "graded_assignment e2 g2 fb2 ?a1 ?s1"
  let ?s2 = "graded e2 g2 fb2 ?s1"
  let ?n2 = "graded_notification t ?a2 ?s2 (userId decoded)"
  have run1: "POST e req db = (success_response e g fb s, ?db1)"
    using assms(1-5) by (rule POST_success_notified)
  have auth2: "passes_authentication e2 req2 token decoded"
    using assms(1,6,7,9) by (simp add: passes_authentication_def)
  have owner: "teacherId ?a1 = userId decoded"
    using assms(3) by (simp add: passes_lookup_def graded_assignment_def)
  have lookup2: "passes_lookup ?db1 req2 decoded ?a1 ?s1"
    using stored_graded_submission [OF assms(3), of e g fb] owner assms(10,11)
    by (simp add: passes_lookup_def saved_def)
  have teacher2: "Teacher_findById (teachers ?db1) (userId decoded) = Some t"
    using assms(5) by (simp add: saved_def)
  have run2: "POST e2 req2 ?db1 =
      (success_response e2 g2 fb2 ?s1,
       (saved e2 g2 fb2 ?a1 ?s1 ?db1)\<lparr>notifications := notifications ?db1 @ [?n2]\<rparr>)"
    using auth2 assms(12) lookup2 assms(8) teacher2 by (rule POST_success_notified)
  have again: "?s2 = s\<lparr>grade := g2, feedback := fb2, status := ''graded'',
      gradedAt := Some (current_date e2)\<rparr>"
    by (simp add: graded_def)
  have stored2: "Assignment_findById (save ?a2 (assignments ?db1)) (param_id req) = Some ?a2
      \<and> submissions_id (submissions ?a2) (param_submissionId req) = Some ?s2"
    using stored_graded_submission [OF lookup2, of e2 g2 fb2] assms(10,11) by simp
  have both: "POST e2 req2 (snd (POST e req db)) =
      (success_response e2 g2 fb2 ?s1,
       (saved e2 g2 fb2 ?a1 ?s1 ?db1)\<lparr>notifications := notifications ?db1 @ [?n2]\<rparr>)"
    by (simp add: run1 run2)
  have c1: "status_code (fst (POST e req db)) = 200"
    by (simp add: run1 success_response_def NextResponse_json_def)
  have c2: "fst (POST e2 req2 (snd (POST e req db))) =
      \<lparr>status_code = 200,
       body = Success ''Submission graded successfully''
         (s\<lparr>grade := g2, feedback := fb2, status := ''graded'',
            gradedAt := Some (current_date e2)\<rparr>)\<rparr>"
    unfolding both by (simp add: success_response_def NextResponse_json_def graded_def)
  have c3: "\<exists>a'. Assignment_findById
        (assignments (snd (POST e2 req2 (snd (POST e req db))))) (param_id req) = Some a'
      \<and> submissions_id (submissions a') (param_submissionId req) =
          Some (s\<lparr>grade := g2, feedback := fb2, status := ''graded'',
                  gradedAt := Some (current_date e2)\<rparr>)"
    using stored2 unfolding both again [symmetric] by (simp add: saved_def)
  have c4: "notifications (snd (POST e req db)) = notifications db @ [?n1]
      \<and> notifications (snd (POST e2 req2 (snd (POST e req db)))) =
          notifications db @ [?n1, ?n2]
      \<and> recipientId ?n1 = studentId s \<and> recipientId ?n2 = studentId s
      \<and> kind ?n1 = ''assignment_graded'' \<and> kind ?n2 = ''assignment_graded''"
    unfolding both by (simp add: run1 saved_def graded_notification_def graded_def)
  show ?thesis
    using c1 c2 c3 c4 by blast
qed

theorem regrading_overwrites_witness:
  "status_code (fst (POST (env0 1000 no_failure) (grade_request (Inr good_body)) store0)) = 200
   \<and> fst (POST (env0 2000 no_failure) (grade_request (Inr good_body))
         (snd (POST (env0 1000 no_failure) (grade_request (Inr good_body)) store0)))
     = \<lparr>status_code = 200,
        body = Success ''Submission graded successfully''
          \<lparr>submission_id = ''s1'', studentId = ''st1'', grade = JNum 85,
           feedback = JStr ''Good work'', status = ''graded'', gradedAt = Some 2000\<rparr>\<rparr>
   \<and> fst (POST (env0 2000 no_failure) (grade_request (Inr better_body))
         (snd (POST (env0 1000 no_failure) (grade_request (Inr good_body)) store0)))
     = \<lparr>status_code = 200,
        body = Success ''Submission graded successfully''
          \<lparr>submission_id = ''s1'', studentId = ''st1'', grade = JNum 90,
           feedback = JStr ''Better'', status = ''graded'', gradedAt = Some 2000\<rparr>\<rparr>
   \<and> map recipientId (notifications (snd (POST (env0 2000 no_failure)
         (grade_request (Inr good_body))
         (snd (POST (env0 1000 no_failure) (grade_request (Inr good_body)) store0)))))
     = [''st1'', ''st1'']
   \<and> assignments (snd (POST (env0 2000 no_failure) (grade_request (Inr better_body))
         (snd (POST (env0 1000 no_failure) (grade_request (Inr good_body)) store0))))
     = [\<lparr>assignment_id = ''a1'', teacherId = ''t1'', title = ''Essay'',
         submissions =
           [\<lparr>submission_id = ''s1'', studentId = ''st1'', grade = JNum 90,
             feedback = JStr ''Better'', status = ''graded'', gradedAt = Some 2000\<rparr>]\<rparr>]"
proof -
  have nf: "\<forall>c. db_failure (env0 t no_failure) c = None" for t
    by (simp add: env0_def no_failure_def)
  have teacher: "Teacher_findById (teachers store0) (userId teacher_payload) = Some teacher0"
    by (simp add: example_defs Teacher_findById_def)
  have v: "verify (env0 2000 no_failure) = verify (env0 1000 no_failure)"
    and k: "JWT_SECRET (env0 2000 no_failure) = JWT_SECRET (env0 1000 no_failure)"
    by (simp_all add: env0_def)
  have same: "auth_token (grade_request b') = auth_token (grade_request (Inr good_body))"
    "param_id (grade_request b') = param_id (grade_request (Inr good_body))"
    "param_submissionId (grade_request b')
       = param_submissionId (grade_request (Inr good_body))" for b'
    by (simp_all add: grade_request_def request0_def auth_token_def)
  have better: "passes_body_validation (grade_request (Inr better_body)) better_body
      (JNum 90) (JStr ''Better'')"
    by (simp add: example_defs passes_body_validation_def property_def)
  note again = regrading_overwrites [OF teacher_authenticated good_body_validated
      store0_lookup nf teacher v k nf same good_body_validated]
  note other = regrading_overwrites [OF teacher_authenticated good_body_validated
      store0_lookup nf teacher v k nf same better]
  have 1: "status_code (fst (POST (env0 1000 no_failure) (grade_request (Inr good_body))
      store0)) = 200"
    using again by simp
  have 2: "fst (POST (env0 2000 no_failure) (grade_request (Inr good_body))
         (snd (POST (env0 1000 no_failure) (grade_request (Inr good_body)) store0)))
     = \<lparr>status_code = 200,
        body = Success ''Submission graded successfully''
          \<lparr>submission_id = ''s1'', studentId = ''st1'', grade = JNum 85,
           feedback = JStr ''Good work'', status = ''graded'', gradedAt = Some 2000\<rparr>\<rparr>"
    using again [THEN conjunct2, THEN conjunct1] by (simp add: example_defs)
  have 3: "fst (POST (env0 2000 no_failure) (grade_request (Inr better_body))
         (snd (POST (env0 1000 no_failure) (grade_request (Inr good_body)) store0)))
     = \<lparr>status_code = 200,
        body = Success ''Submission graded successfully''
          \<lparr>submission_id = ''s1'', studentId = ''st1'', grade = JNum 90,
           feedback = JStr ''Better'', status = ''graded'', gradedAt = Some 2000\<rparr>\<rparr>"
    using other [THEN conjunct2, THEN conjunct1] by (simp add: example_defs)
  obtain n1 n2 where n: "notifications (snd (POST (env0 2000 no_failure)
         (grade_request (Inr good_body))
         (snd (POST (env0 1000 no_failure) (grade_request (Inr good_body)) store0))))
       = notifications store0 @ [n1, n2]"
    "recipientId n1 = studentId submission0" "recipientId n2 = studentId submission0"
    using again [THEN conjunct2, THEN conjunct2, THEN conjunct2] by blast
  have 4: "map recipientId (notifications (snd (POST (env0 2000 no_failure)
         (grade_request (Inr good_body))
         (snd (POST (env0 1000 no_failure) (grade_request (Inr good_body)) store0)))))
     = [''st1'', ''st1'']"
    unfolding n(1) using n(2,3) by (simp add: store0_def submission0_def)
  have 5: "assignments (snd (POST (env0 2000 no_failure) (grade_request (Inr better_body))
         (snd (POST (env0 1000 no_failure) (grade_request (Inr good_body)) store0))))
     = [\<lparr>assignment_id = ''a1'', teacherId = ''t1'', title = ''Essay'',
         submissions =
           [\<lparr>submission_id = ''s1'', studentId = ''st1'', grade = JNum 90,
             feedback = JStr ''Better'', status = ''graded'', gradedAt = Some 2000\<rparr>]\<rparr>]"
    by (simp add: example_defs model_defs)
  show ?thesis
    using 1 2 3 4 5 by simp
qed

subsection \<open>Exceptions\<close>

lemma grade_and_notify_forms:
  "grade_and_notify e decoded g fb a s db = (Inr r, db') \<Longrightarrow>
   r = success_response e g fb s"
  by (auto simp: grade_and_notify_def success_response_def graded_def Let_def
      split: option.splits)

lemma find_and_grade_forms:
  "find_and_grade e decoded g fb req db = (Inr r, db') \<Longrightarrow>
   r = json_error ''Assignment not found'' 404 \<or>
   r = json_error ''Not authorized to grade this assignment'' 403 \<or>
   r = json_error ''Submission not found'' 404 \<or>
   (\<exists>s'. r = NextResponse_json (Success ''Submission graded successfully'' s') 200)"
  unfolding find_and_grade_def
  by (auto split: option.splits if_splits dest!: grade_and_notify_forms
      simp: success_response_def)

lemma read_body_forms:
  "read_body_and_grade e decoded req db = (Inr r, db') \<Longrightarrow>
   r = json_error ''Grade and feedback are required'' 400 \<or>
   r = json_error ''Assignment not found'' 404 \<or>
   r = json_error ''Not authorized to grade this assignment'' 403 \<or>
   r = json_error ''Submission not found'' 404 \<or>
   (\<exists>s'. r = NextResponse_json (Success ''Submission graded successfully'' s') 200)"
  unfolding read_body_and_grade_def
  by (auto split: option.splits sum.splits if_splits dest!: find_and_grade_forms)

lemma try_block_forms:
  "try_block e req db = (Inr r, db') \<Longrightarrow>
   r = json_error ''Unauthorized'' 401 \<or>
   r = json_error ''Invalid token'' 401 \<or>
   r = json_error ''Access denied - only teachers can grade assignments'' 403 \<or>
   r = json_error ''Grade and feedback are required'' 400 \<or>
   r = json_error ''Assignment not found'' 404 \<or>
   r = json_error ''Not authorized to grade this assignment'' 403 \<or>
   r = json_error ''Submission not found'' 404 \<or>
   (\<exists>s'. r = NextResponse_json (Success ''Submission graded successfully'' s') 200)"
  unfolding try_block_def
  by (auto split: option.splits sum.splits if_splits dest!: read_body_forms)

lemma POST_response_forms:
  "fst (POST e req db) = json_error ''Unauthorized'' 401 \<or>
   fst (POST e req db) = json_error ''Invalid token'' 401 \<or>
   fst (POST e req db) =
     json_error ''Access denied - only teachers can grade assignments'' 403 \<or>
   fst (POST e req db) = json_error ''Grade and feedback are required'' 400 \<or>
   fst (POST e req db) = json_error ''Assignment not found'' 404 \<or>
   fst (POST e req db) = json_error ''Not authorized to grade this assignment'' 403 \<or>
   fst (POST e req db) = json_error ''Submission not found'' 404 \<or>
   fst (POST e req db) = json_error ''Failed to grade submission'' 500 \<or>
   (\<exists>s'. fst (POST e req db) =
          NextResponse_json (Success ''Submission graded successfully'' s') 200)"
proof -
  obtain r db' where t: "try_block e req db = (r, db')"
    by (cases "try_block e req db")
  show ?thesis
  proof (cases r)
    case (Inl x)
    then show ?thesis using t by (simp add: POST_def)
  next
    case (Inr r')
    then have "fst (POST e req db) = r'" using t by (simp add: POST_def)
    then show ?thesis using try_block_forms [of e req db r' db'] t Inr by blast
  qed
qed

lemma POST_save_fails:
  assumes "passes_authentication e req token decoded"
    and "passes_body_validation req b g fb"
    and "passes_lookup db req decoded a s"
    and "db_failure e ConnectToDatabase = None"
    and "db_failure e AssignmentFindById = None"
    and "db_failure e AssignmentSave = Some x"
  shows "POST e req db = (json_error ''Failed to grade submission'' 500, db)"
proof -
  have "try_block e req db = grade_and_notify e decoded g fb a s db"
    using assms(1-5) by (rule try_block_checked)
  then show ?thesis
    using assms(6) by (simp add: POST_def grade_and_notify_save_fails)
qed

lemma POST_after_save_fails:
  assumes "passes_authentication e req token decoded"
    and "passes_body_validation req b g fb"
    and "passes_lookup db req decoded a s"
    and "db_failure e ConnectToDatabase = None"
    and "db_failure e AssignmentFindById = None"
    and "db_failure e AssignmentSave = None"
    and "db_failure e TeacherFindById = Some x \<or>
         (db_failure e TeacherFindById = None \<and>
          Teacher_findById (teachers db) (userId decoded) = Some t \<and>
          db_failure e NotificationCreate = Some x)"
  shows "POST e req db = (json_error ''Failed to grade submission'' 500, saved e g fb a s db)"
proof -
  have "try_block e req db = grade_and_notify e decoded g fb a s db"
    using assms(1-5) by (rule try_block_checked)
  then show ?thesis
    using assms(6,7)
    by (auto simp: POST_def grade_and_notify_lookup_fails grade_and_notify_create_fails)
qed

text \<open>
  Claim C7. No exception leaves the handler: whatever the \<^verbatim>\<open>try\<close> block throws is
  answered by the one response 500 "Failed to grade submission". This is shown for the block
  as a whole and for each place that can throw outside the seven checks: the parsing of the
  body, the reading of its properties, the connection, the assignment lookup, the save, the
  teacher lookup and the notification creation. Every response of the handler is one of
  eight fixed failure bodies or the success body with the submission: no message of an
  exception is in any of them.
\<close>

theorem exceptions_become_500:
  "(\<forall>x db'. try_block e req db = (Inl x, db') \<longrightarrow>
      POST e req db =
        (\<lparr>status_code = 500, body = Failure ''Failed to grade submission''\<rparr>, db'))
   \<and> (passes_authentication e req token decoded \<longrightarrow>
        (json req = Inl x \<longrightarrow>
           fst (POST e req db) =
             \<lparr>status_code = 500, body = Failure ''Failed to grade submission''\<rparr>)
      \<and> (json req = Inr b \<and> destructure b = Inl x \<longrightarrow>
           fst (POST e req db) =
             \<lparr>status_code = 500, body = Failure ''Failed to grade submission''\<rparr>)
      \<and> (passes_body_validation req b g fb \<longrightarrow>
           (db_failure e ConnectToDatabase = Some x \<longrightarrow>
              fst (POST e req db) =
                \<lparr>status_code = 500, body = Failure ''Failed to grade submission''\<rparr>)
         \<and> (db_failure e ConnectToDatabase = None \<and>
            db_failure e AssignmentFindById = Some x \<longrightarrow>
              fst (POST e req db) =
                \<lparr>status_code = 500, body = Failure ''Failed to grade submission''\<rparr>)
         \<and> (db_failure e ConnectToDatabase = None \<and>
            db_failure e AssignmentFindById = None \<and> passes_lookup db req decoded a s \<longrightarrow>
              (db_failure e AssignmentSave = Some x \<longrightarrow>
                 fst (POST e req db) =
                   \<lparr>status_code = 500, body = Failure ''Failed to grade submission''\<rparr>)
            \<and> (db_failure e AssignmentSave = None \<and>
               db_failure e TeacherFindById = Some x \<longrightarrow>
                 fst (POST e req db) =
                   \<lparr>status_code = 500, body = Failure ''Failed to grade submission''\<rparr>)
            \<and> (db_failure e AssignmentSave = None \<and>
               db_failure e TeacherFindById = None \<and>
               Teacher_findById (teachers db) (userId decoded) = Some t \<and>
               db_failure e NotificationCreate = Some x \<longrightarrow>
                 fst (POST e req db) =
                   \<lparr>status_code = 500, body = Failure ''Failed to grade submission''\<rparr>))))
   \<and> (fst (POST e req db) = \<lparr>status_code = 401, body = Failure ''Unauthorized''\<rparr>
      \<or> fst (POST e req db) = \<lparr>status_code = 401, body = Failure ''Invalid token''\<rparr>
      \<or> fst (POST e req db) = \<lparr>status_code = 403,
           body = Failure ''Access denied - only teachers can grade assignments''\<rparr>
      \<or> fst (POST e req db) =
           \<lparr>status_code = 400, body = Failure ''Grade and feedback are required''\<rparr>
      \<or> fst (POST e req db) = \<lparr>status_code = 404, body = Failure ''Assignment not found''\<rparr>
      \<or> fst (POST e req db) =
           \<lparr>status_code = 403, body = Failure ''Not authorized to grade this assignment''\<rparr>
      \<or> fst (POST e req db) = \<lparr>status_code = 404, body = Failure ''Submission not found''\<rparr>
      \<or> fst (POST e req db) =
           \<lparr>status_code = 500, body = Failure ''Failed to grade submission''\<rparr>
      \<or> (\<exists>s'. fst (POST e req db) =
            \<lparr>status_code = 200, body = Success ''Submission graded successfully'' s'\<rparr>))"
proof (intro conjI impI allI)
  fix y db'
  assume "try_block e req db = (Inl y, db')"
  then show "POST e req db =
      (\<lparr>status_code = 500, body = Failure ''Failed to grade submission''\<rparr>, db')"
    by (simp add: POST_def json_error_def NextResponse_json_def)
next
  assume "passes_authentication e req token decoded" and "json req = Inl x"
  then show "fst (POST e req db) =
      \<lparr>status_code = 500, body = Failure ''Failed to grade submission''\<rparr>"
    by (simp add: POST_body_unparsable json_error_def NextResponse_json_def)
next
  assume "passes_authentication e req token decoded"
    and "json req = Inr b \<and> destructure b = Inl x"
  then show "fst (POST e req db) =
      \<lparr>status_code = 500, body = Failure ''Failed to grade submission''\<rparr>"
    using POST_body_nullish [of e req token decoded b x db]
    by (simp add: json_error_def NextResponse_json_def)
next
  assume "passes_authentication e req token decoded"
    and "passes_body_validation req b g fb"
    and "db_failure e ConnectToDatabase = Some x"
  then show "fst (POST e req db) =
      \<lparr>status_code = 500, body = Failure ''Failed to grade submission''\<rparr>"
    using POST_connect_fails [of e req token decoded b g fb x db]
    by (simp add: json_error_def NextResponse_json_def)
next
  assume "passes_authentication e req token decoded"
    and "passes_body_validation req b g fb"
    and "db_failure e ConnectToDatabase = None \<and> db_failure e AssignmentFindById = Some x"
  then show "fst (POST e req db) =
      \<lparr>status_code = 500, body = Failure ''Failed to grade submission''\<rparr>"
    using POST_find_fails [of e req token decoded b g fb x db]
    by (simp add: json_error_def NextResponse_json_def)
next
  assume "passes_authentication e req token decoded"
    and "passes_body_validation req b g fb"
    and "db_failure e ConnectToDatabase = None \<and> db_failure e AssignmentFindById = None \<and>
      passes_lookup db req decoded a s"
    and "db_failure e AssignmentSave = Some x"
  then show "fst (POST e req db) =
      \<lparr>status_code = 500, body = Failure ''Failed to grade submission''\<rparr>"
    using POST_save_fails [of e req token decoded b g fb db a s x]
    by (simp add: json_error_def NextResponse_json_def)
next
  assume "passes_authentication e req token decoded"
    and "passes_body_validation req b g fb"
    and "db_failure e ConnectToDatabase = None \<and> db_failure e AssignmentFindById = None \<and>
      passes_lookup db req decoded a s"
    and "db_failure e AssignmentSave = None \<and> db_failure e TeacherFindById = Some x"
  then show "fst (POST e req db) =
      \<lparr>status_code = 500, body = Failure ''Failed to grade submission''\<rparr>"
    using POST_after_save_fails [of e req token decoded b g fb db a s x t]
    by (simp add: json_error_def NextResponse_json_def)
next
  assume "passes_authentication e req token decoded"
    and "passes_body_validation req b g fb"
    and "db_failure e ConnectToDatabase = None \<and> db_failure e AssignmentFindById = None \<and>
      passes_lookup db req decoded a s"
    and "db_failure e AssignmentSave = None \<and> db_failure e TeacherFindById = None \<and>
      Teacher_findById (teachers db) (userId decoded) = Some t \<and>
      db_failure e NotificationCreate = Some x"
  then show "fst (POST e req db) =
      \<lparr>status_code = 500, body = Failure ''Failed to grade submission''\<rparr>"
    using POST_after_save_fails [of e req token decoded b g fb db a s x t]
    by (simp add: json_error_def NextResponse_json_def)
next
  show "fst (POST e req db) = \<lparr>status_code = 401, body = Failure ''Unauthorized''\<rparr>
      \<or> fst (POST e req db) = \<lparr>status_code = 401, body = Failure ''Invalid token''\<rparr>
      \<or> fst (POST e req db) = \<lparr>status_code = 403,
           body = Failure ''Access denied - only teachers can grade assignments''\<rparr>
      \<or> fst (POST e req db) =
           \<lparr>status_code = 400, body = Failure ''Grade and feedback are required''\<rparr>
      \<or> fst (POST e req db) = \<lparr>status_code = 404, body = Failure ''Assignment not found''\<rparr>
      \<or> fst (POST e req db) =
           \<lparr>status_code = 403, body = Failure ''Not authorized to grade this assignment''\<rparr>
      \<or> fst (POST e req db) = \<lparr>status_code = 404, body = Failure ''Submission not found''\<rparr>
      \<or> fst (POST e req db) =
           \<lparr>status_code = 500, body = Failure ''Failed to grade submission''\<rparr>
      \<or> (\<exists>s'. fst (POST e req db) =
            \<lparr>status_code = 200, body = Success ''Submission graded successfully'' s'\<rparr>)"
    using POST_response_forms [of e req db]
    unfolding json_error_def NextResponse_json_def .
qed

theorem exceptions_become_500_witness:
  "POST (env0 1000 no_failure) (grade_request unparsable) store0
     = (\<lparr>status_code = 500, body = Failure ''Failed to grade submission''\<rparr>, store0)
   \<and> fst (POST (env0 1000 no_failure) (grade_request (Inr JNull)) store0)
     = \<lparr>status_code = 500, body = Failure ''Failed to grade submission''\<rparr>
   \<and> fst (POST (env0 1000 (failure_at ConnectToDatabase)) (grade_request (Inr good_body))
        store0)
     = \<lparr>status_code = 500, body = Failure ''Failed to grade submission''\<rparr>
   \<and> fst (POST (env0 1000 (failure_at AssignmentFindById)) (grade_request (Inr good_body))
        store0)
     = \<lparr>status_code = 500, body = Failure ''Failed to grade submission''\<rparr>
   \<and> fst (POST (env0 1000 (failure_at AssignmentSave)) (grade_request (Inr good_body))
        store0)
     = \<lparr>status_code = 500, body = Failure ''Failed to grade submission''\<rparr>
   \<and> fst (POST (env0 1000 (failure_at TeacherFindById)) (grade_request (Inr good_body))
        store0)
     = \<lparr>status_code = 500, body = Failure ''Failed to grade submission''\<rparr>
   \<and> fst (POST (env0 1000 (failure_at NotificationCreate)) (grade_request (Inr good_body))
        store0)
     = \<lparr>status_code = 500, body = Failure ''Failed to grade submission''\<rparr>"
proof -
  note inst = exceptions_become_500 [where token = "''T''" and decoded = teacher_payload
      and db = store0 and a = assignment0 and s = submission0 and t = teacher0
      and g = "JNum 85" and fb = "JStr ''Good work''"]
  have thrown: "try_block (env0 1000 no_failure) (grade_request unparsable) store0
      = (Inl (Error ''SyntaxError: Unexpected token < in JSON at position 0''), store0)"
    by (simp add: example_defs try_block_def auth_token_def read_body_and_grade_def)
  have 1: "POST (env0 1000 no_failure) (grade_request unparsable) store0
      = (\<lparr>status_code = 500, body = Failure ''Failed to grade submission''\<rparr>, store0)"
    using inst [where e = "env0 1000 no_failure" and req = "grade_request unparsable",
        THEN conjunct1, rule_format, OF thrown] .
  have 2: "fst (POST (env0 1000 no_failure) (grade_request (Inr JNull)) store0)
      = \<lparr>status_code = 500, body = Failure ''Failed to grade submission''\<rparr>"
    using inst [where e = "env0 1000 no_failure" and req = "grade_request (Inr JNull)"
        and b = JNull and x = "Error ''TypeError: Cannot destructure property of null''"]
      teacher_authenticated [of 1000 no_failure "Inr JNull"]
    by (simp add: grade_request_def request0_def)
  have site: "fst (POST (env0 1000 (failure_at c)) (grade_request (Inr good_body)) store0)
      = \<lparr>status_code = 500, body = Failure ''Failed to grade submission''\<rparr>" for c
    using inst [where e = "env0 1000 (failure_at c)"
        and req = "grade_request (Inr good_body)" and b = good_body
        and x = "Error ''MongoNetworkError''"]
      teacher_authenticated [of 1000 "failure_at c" "Inr good_body"]
      good_body_validated store0_lookup [of "Inr good_body"]
    by (cases c) (simp_all add: env0_def failure_at_def teacher_payload_def store0_def
        teacher0_def Teacher_findById_def)
  show ?thesis
    using 1 2 site by simp
qed

subsection \<open>The notification comes after the save\<close>

lemma find_and_grade_writes:
  "snd (find_and_grade e decoded g fb req db) \<noteq> db \<Longrightarrow>
   \<exists>a s. passes_lookup db req decoded a s \<and>
     snd (find_and_grade e decoded g fb req db) = snd (grade_and_notify e decoded g fb a s db)"
  by (auto simp: find_and_grade_def passes_lookup_def split: option.splits if_splits)

lemma read_body_writes:
  "snd (read_body_and_grade e decoded req db) \<noteq> db \<Longrightarrow>
   \<exists>g fb a s. passes_lookup db req decoded a s \<and>
     snd (read_body_and_grade e decoded req db) =
       snd (grade_and_notify e decoded g fb a s db)"
  unfolding read_body_and_grade_def
  by (auto split: option.splits sum.splits if_splits dest!: find_and_grade_writes) blast+

lemma try_block_writes:
  "snd (try_block e req db) \<noteq> db \<Longrightarrow>
   \<exists>decoded g fb a s. passes_lookup db req decoded a s \<and>
     snd (try_block e req db) = snd (grade_and_notify e decoded g fb a s db)"
  unfolding try_block_def
  by (auto split: option.splits sum.splits if_splits dest!: read_body_writes) blast+

lemma notified_implies_saved:
  assumes "notifications (snd (POST e req db)) \<noteq> notifications db"
  shows "db_failure e AssignmentSave = None
       \<and> (\<exists>a' s'. Assignment_findById (assignments (snd (POST e req db))) (param_id req)
              = Some a'
            \<and> submissions_id (submissions a') (param_submissionId req) = Some s'
            \<and> status s' = ''graded'' \<and> gradedAt s' = Some (current_date e))"
proof -
  have "snd (try_block e req db) \<noteq> db"
    using assms by (auto simp: snd_POST)
  then obtain decoded g fb a s where l: "passes_lookup db req decoded a s"
    and w: "snd (try_block e req db) = snd (grade_and_notify e decoded g fb a s db)"
    using try_block_writes by blast
  have n: "notifications (snd (grade_and_notify e decoded g fb a s db)) \<noteq> notifications db"
    using assms by (simp add: snd_POST w)
  then have save_ok: "db_failure e AssignmentSave = None"
    by (rule grade_and_notify_notifications)
  have kept: "assignments (snd (POST e req db)) =
      save (graded_assignment e g fb a s) (assignments db)"
    using save_ok by (simp add: snd_POST w grade_and_notify_assignments)
  show ?thesis
    using save_ok stored_graded_submission [OF l, of e g fb] kept
    by (auto simp: graded_def)
qed

text \<open>
  Claim C8. A notification is created only after the aggregate has been saved. In any run
  that leaves the notifications changed, the save did not fail and the store holds the
  graded submission under the request's ids. When all seven checks pass: if the save throws,
  the store is left as found, with no notification; if the save goes through and the teacher
  lookup or the notification creation throws, the graded aggregate is stored and the
  notifications are as before.
\<close>

theorem notification_only_after_save:
  "(notifications (snd (POST e req db)) \<noteq> notifications db \<longrightarrow>
      db_failure e AssignmentSave = None
    \<and> (\<exists>a' s'. Assignment_findById (assignments (snd (POST e req db))) (param_id req)
           = Some a'
         \<and> submissions_id (submissions a') (param_submissionId req) = Some s'
         \<and> status s' = ''graded'' \<and> gradedAt s' = Some (current_date e)))
   \<and> (passes_authentication e req token decoded \<and> passes_body_validation req b g fb \<and>
       passes_lookup db req decoded a s \<and> db_failure e ConnectToDatabase = None \<and>
       db_failure e AssignmentFindById = None \<longrightarrow>
        (db_failure e AssignmentSave = Some x \<longrightarrow> snd (POST e req db) = db)
      \<and> (db_failure e AssignmentSave = None \<and>
          (db_failure e TeacherFindById = Some x \<or>
           (db_failure e TeacherFindById = None \<and>
            Teacher_findById (teachers db) (userId decoded) = Some t \<and>
            db_failure e NotificationCreate = Some x)) \<longrightarrow>
           assignments (snd (POST e req db)) =
             save (a\<lparr>submissions := put_submission
                     (s\<lparr>grade := g, feedback := fb, status := ''graded'',
                        gradedAt := Some (current_date e)\<rparr>) (submissions a)\<rparr>)
               (assignments db)
         \<and> teachers (snd (POST e req db)) = teachers db
         \<and> notifications (snd (POST e req db)) = notifications db))"
proof (intro conjI impI)
  assume "notifications (snd (POST e req db)) \<noteq> notifications db"
  then show "db_failure e AssignmentSave = None"
    and "\<exists>a' s'. Assignment_findById (assignments (snd (POST e req db))) (param_id req)
           = Some a'
         \<and> submissions_id (submissions a') (param_submissionId req) = Some s'
         \<and> status s' = ''graded'' \<and> gradedAt s' = Some (current_date e)"
    using notified_implies_saved [of e req db] by simp_all
next
  assume "passes_authentication e req token decoded \<and> passes_body_validation req b g fb \<and>
       passes_lookup db req decoded a s \<and> db_failure e ConnectToDatabase = None \<and>
       db_failure e AssignmentFindById = None"
    and "db_failure e AssignmentSave = Some x"
  then show "snd (POST e req db) = db"
    using POST_save_fails [of e req token decoded b g fb db a s x] by simp
next
  assume h: "passes_authentication e req token decoded \<and> passes_body_validation req b g fb \<and>
       passes_lookup db req decoded a s \<and> db_failure e ConnectToDatabase = None \<and>
       db_failure e AssignmentFindById = None"
    and f: "db_failure e AssignmentSave = None \<and>
          (db_failure e TeacherFindById = Some x \<or>
           (db_failure e TeacherFindById = None \<and>
            Teacher_findById (teachers db) (userId decoded) = Some t \<and>
            db_failure e NotificationCreate = Some x))"
  have r: "snd (POST e req db) = saved e g fb a s db"
    using h f POST_after_save_fails [of e req token decoded b g fb db a s x t] by simp
  show "assignments (snd (POST e req db)) =
             save (a\<lparr>submissions := put_submission
                     (s\<lparr>grade := g, feedback := fb, status := ''graded'',
                        gradedAt := Some (current_date e)\<rparr>) (submissions a)\<rparr>)
               (assignments db)"
    and "teachers (snd (POST e req db)) = teachers db"
    and "notifications (snd (POST e req db)) = notifications db"
    unfolding r by (simp_all add: saved_def graded_assignment_def graded_def)
qed

theorem notification_only_after_save_witness:
  "notifications (snd (POST (env0 1000 no_failure) (grade_request (Inr good_body)) store0))
     \<noteq> notifications store0
   \<and> db_failure (env0 1000 no_failure) AssignmentSave = None
   \<and> (\<exists>a' s'. Assignment_findById (assignments (snd (POST (env0 1000 no_failure)
          (grade_request (Inr good_body)) store0))) ''a1'' = Some a'
        \<and> submissions_id (submissions a') ''s1'' = Some s'
        \<and> status s' = ''graded'' \<and> gradedAt s' = Some 1000)
   \<and> snd (POST (env0 1000 (failure_at AssignmentSave)) (grade_request (Inr good_body)) store0)
     = store0
   \<and> assignments (snd (POST (env0 1000 (failure_at TeacherFindById))
        (grade_request (Inr good_body)) store0))
     = [\<lparr>assignment_id = ''a1'', teacherId = ''t1'', title = ''Essay'',
         submissions =
           [\<lparr>submission_id = ''s1'', studentId = ''st1'', grade = JNum 85,
             feedback = JStr ''Good work'', status = ''graded'', gradedAt = Some 1000\<rparr>]\<rparr>]
   \<and> notifications (snd (POST (env0 1000 (failure_at TeacherFindById))
        (grade_request (Inr good_body)) store0)) = []
   \<and> notifications (snd (POST (env0 1000 (failure_at NotificationCreate))
        (grade_request (Inr good_body)) store0)) = []"
proof -
  note inst = notification_only_after_save [where req = "grade_request (Inr good_body)"
      and db = store0 and token = "''T''" and decoded = teacher_payload and b = good_body
      and g = "JNum 85" and fb = "JStr ''Good work''" and a = assignment0
      and s = submission0 and t = teacher0 and x = "Error ''MongoNetworkError''"]
  have changed: "notifications (snd (POST (env0 1000 no_failure)
      (grade_request (Inr good_body)) store0)) \<noteq> notifications store0"
    by (simp add: example_defs model_defs)
  have ids: "param_id (grade_request (Inr good_body)) = ''a1''"
    "param_submissionId (grade_request (Inr good_body)) = ''s1''"
    "current_date (env0 1000 no_failure) = 1000"
    by (simp_all add: example_defs)
  have 1: "db_failure (env0 1000 no_failure) AssignmentSave = None
      \<and> (\<exists>a' s'. Assignment_findById (assignments (snd (POST (env0 1000 no_failure)
          (grade_request (Inr good_body)) store0))) ''a1'' = Some a'
        \<and> submissions_id (submissions a') ''s1'' = Some s'
        \<and> status s' = ''graded'' \<and> gradedAt s' = Some 1000)"
    using inst [where e = "env0 1000 no_failure", THEN conjunct1, rule_format, OF changed]
    unfolding ids .
  have pre: "passes_authentication (env0 1000 (failure_at c)) (grade_request (Inr good_body))
        ''T'' teacher_payload \<and>
      passes_body_validation (grade_request (Inr good_body)) good_body
        (JNum 85) (JStr ''Good work'') \<and>
      passes_lookup store0 (grade_request (Inr good_body)) teacher_payload
        assignment0 submission0 \<and>
      db_failure (env0 1000 (failure_at c)) ConnectToDatabase = None \<and>
      db_failure (env0 1000 (failure_at c)) AssignmentFindById = None"
    if "c \<noteq> ConnectToDatabase" "c \<noteq> AssignmentFindById" for c
    using that teacher_authenticated good_body_validated store0_lookup
    by (simp add: env0_def failure_at_def)
  have 2: "snd (POST (env0 1000 (failure_at AssignmentSave)) (grade_request (Inr good_body))
      store0) = store0"
    using inst [where e = "env0 1000 (failure_at AssignmentSave)", THEN conjunct2,
        rule_format, OF pre, THEN conjunct1]
    by (simp add: env0_def failure_at_def)
  have 3: "assignments (snd (POST (env0 1000 (failure_at TeacherFindById))
        (grade_request (Inr good_body)) store0))
     = [\<lparr>assignment_id = ''a1'', teacherId = ''t1'', title = ''Essay'',
         submissions =
           [\<lparr>submission_id = ''s1'', studentId = ''st1'', grade = JNum 85,
             feedback = JStr ''Good work'', status = ''graded'', gradedAt = Some 1000\<rparr>]\<rparr>]
     \<and> notifications (snd (POST (env0 1000 (failure_at TeacherFindById))
        (grade_request (Inr good_body)) store0)) = []"
    using inst [where e = "env0 1000 (failure_at TeacherFindById)", THEN conjunct2,
        rule_format, OF pre, THEN conjunct2]
    by (simp add: example_defs)
  have 4: "notifications (snd (POST (env0 1000 (failure_at NotificationCreate))
        (grade_request (Inr good_body)) store0)) = []"
    using inst [where e = "env0 1000 (failure_at NotificationCreate)", THEN conjunct2,
        rule_format, OF pre, THEN conjunct2]
    by (simp add: example_defs Teacher_findById_def)
  show ?thesis
    using changed 1 2 3 4 by simp
qed

end
